theory Spec2Isabelle
  imports Complex_Main
begin

section \<open>The SHELXL instruction-file parser of CellOpt (\<^verbatim>\<open>shelxlParser.py\<close>)\<close>

text \<open>
  A shallow embedding of \<^verbatim>\<open>src/cellopt/shelxlParser.py\<close>. Every Python
  function used by the properties below is a HOL function of the same name (prefixed by
  its class where two classes share a method name). Conventions:
  \<^item> a Python exception is a value of \<open>error\<close>; a function that can raise returns a sum
    with the error on the left;
  \<^item> Python floats are modelled by rationals with exact arithmetic (rounding, overflow,
    \<^verbatim>\<open>inf\<close> and \<^verbatim>\<open>nan\<close> are outside the model); where Python would produce a
    value the model cannot express, the model answers \<open>NotModelled\<close>, so that no
    theorem speaks about such a run;
  \<^item> Python strings are \<open>string\<close>; only ASCII text is interpreted (case mapping and
    white space);
  \<^item> instances of \<^verbatim>\<open>SymmetryElement\<close> live in a store and are named by references,
    since lists of the structure and the class-level lattice table share them.
\<close>

subsection \<open>Exceptions\<close>

datatype error =
  ValueError | IndexError | KeyError | TypeError | AttributeError | ZeroDivisionError
  | FileNotFoundError | NotModelled

subsection \<open>Strings: the \<^verbatim>\<open>str\<close> methods the parser calls\<close>

definition NL :: char where
  "NL = CHR 0x0A"

text \<open>White space as \<^verbatim>\<open>str.split()\<close>, \<^verbatim>\<open>str.strip()\<close> and \<^verbatim>\<open>str.rstrip()\<close>
  see it (ASCII): tab, line feed, vertical tab, form feed, carriage return, the
  separators 0x1C..0x1F and the blank.\<close>

definition isspace :: "char \<Rightarrow> bool" where
  "isspace c = (of_char c \<in> {9, 10, 11, 12, 13, 28, 29, 30, 31, 32 :: nat})"

definition isdigit :: "char \<Rightarrow> bool" where
  "isdigit c = (c \<in> set ''0123456789'')"

definition ascii_uppercase :: string where
  "ascii_uppercase = ''ABCDEFGHIJKLMNOPQRSTUVWXYZ''"

definition ascii_lowercase :: string where
  "ascii_lowercase = ''abcdefghijklmnopqrstuvwxyz''"

definition char_lower :: "char \<Rightarrow> char" where
  "char_lower c = (case map_of (zip ascii_uppercase ascii_lowercase) c of
                     Some d \<Rightarrow> d | None \<Rightarrow> c)"

definition char_upper :: "char \<Rightarrow> char" where
  "char_upper c = (case map_of (zip ascii_lowercase ascii_uppercase) c of
                     Some d \<Rightarrow> d | None \<Rightarrow> c)"

definition lower :: "string \<Rightarrow> string" where
  "lower s = map char_lower s"

definition upper :: "string \<Rightarrow> string" where
  "upper s = map char_upper s"

text \<open>\<^verbatim>\<open>s.replace(c, t)\<close> for a one-character pattern \<open>c\<close>.\<close>

definition replace :: "char \<Rightarrow> string \<Rightarrow> string \<Rightarrow> string" where
  "replace c t s = concat (map (\<lambda>x. if x = c then t else [x]) s)"

text \<open>\<^verbatim>\<open>s.partition(c)\<close> for a one-character separator: the text before the first
  occurrence, the separator, the text after it; \<open>(s, '''', '''')\<close> when \<open>c\<close> does not occur.\<close>

definition partition_str :: "string \<Rightarrow> char \<Rightarrow> string \<times> string \<times> string" where
  "partition_str s c =
     (case dropWhile (\<lambda>x. x \<noteq> c) s of
        [] \<Rightarrow> (s, [], [])
      | _ # after \<Rightarrow> (takeWhile (\<lambda>x. x \<noteq> c) s, [c], after))"

text \<open>\<^verbatim>\<open>s.split()\<close>: the maximal runs of non-blank characters.\<close>

fun words_from :: "string \<Rightarrow> string \<Rightarrow> string list" where
  "words_from w [] = (if w = [] then [] else [w])"
| "words_from w (c # cs) =
     (if isspace c then (if w = [] then words_from [] cs else w # words_from [] cs)
      else words_from (w @ [c]) cs)"

definition split :: "string \<Rightarrow> string list" where
  "split s = words_from [] s"

text \<open>\<^verbatim>\<open>s.split(c)\<close>: the fields between occurrences of \<open>c\<close>, empty fields kept.\<close>

fun fields_from :: "char \<Rightarrow> string \<Rightarrow> string \<Rightarrow> string list" where
  "fields_from d w [] = [w]"
| "fields_from d w (c # cs) =
     (if c = d then w # fields_from d [] cs else fields_from d (w @ [c]) cs)"

definition split_on :: "char \<Rightarrow> string \<Rightarrow> string list" where
  "split_on d s = fields_from d [] s"

definition rstrip_chars :: "(char \<Rightarrow> bool) \<Rightarrow> string \<Rightarrow> string" where
  "rstrip_chars P s = rev (dropWhile P (rev s))"

definition rstrip :: "string \<Rightarrow> string" where
  "rstrip s = rstrip_chars isspace s"

definition strip :: "string \<Rightarrow> string" where
  "strip s = dropWhile isspace (rstrip s)"

definition endswith :: "string \<Rightarrow> char \<Rightarrow> bool" where
  "endswith s c = (s \<noteq> [] \<and> last s = c)"

text \<open>\<^verbatim>\<open>'', ''.join(xs)\<close>.\<close>

fun join :: "string \<Rightarrow> string list \<Rightarrow> string" where
  "join sep [] = []"
| "join sep [x] = x"
| "join sep (x # y # ys) = x @ sep @ join sep (y # ys)"

subsection \<open>Numbers: \<^verbatim>\<open>float\<close>, \<^verbatim>\<open>int\<close>, \<^verbatim>\<open>str\<close> and \<^verbatim>\<open>eval\<close> on the texts the parser meets\<close>

definition digit_val :: "char \<Rightarrow> nat" where
  "digit_val c = of_char c - 48"

definition digits_val :: "string \<Rightarrow> nat" where
  "digits_val ds = foldl (\<lambda>n c. 10 * n + digit_val c) 0 ds"

text \<open>An optional sign in front of a number: the sign as \<open>1\<close> or \<open>-1\<close>, and the rest.\<close>

definition split_sign :: "string \<Rightarrow> int \<times> string" where
  "split_sign s =
     (case s of
        [] \<Rightarrow> (1, [])
      | c # r \<Rightarrow> if c = CHR ''-'' then (- 1, r) else if c = CHR ''+'' then (1, r) else (1, s))"

text \<open>The exponent part of a float literal: nothing, or \<^verbatim>\<open>e\<close>/\<^verbatim>\<open>E\<close>, an optional sign
  and at least one digit.\<close>

definition float_exponent :: "string \<Rightarrow> int option" where
  "float_exponent s =
     (case s of
        [] \<Rightarrow> Some 0
      | c # r \<Rightarrow>
          if c = CHR ''e'' \<or> c = CHR ''E'' then
            (case split_sign r of (sg, ds) \<Rightarrow>
               if ds \<noteq> [] \<and> list_all isdigit ds then Some (sg * int (digits_val ds)) else None)
          else None)"

text \<open>An unsigned decimal literal: digits, an optional point with digits (at least one
  digit on one side of the point), an optional exponent.\<close>

definition float_unsigned :: "string \<Rightarrow> rat option" where
  "float_unsigned s =
     (let ip = takeWhile isdigit s;
          r1 = dropWhile isdigit s;
          point = (r1 \<noteq> [] \<and> hd r1 = CHR ''.'');
          fp = (if point then takeWhile isdigit (tl r1) else []);
          r2 = (if point then dropWhile isdigit (tl r1) else r1)
      in if ip = [] \<and> fp = [] then None
         else (case float_exponent r2 of
                 None \<Rightarrow> None
               | Some e \<Rightarrow>
                   Some ((of_nat (digits_val ip) + of_nat (digits_val fp) / 10 ^ length fp)
                         * (if 0 \<le> e then 10 ^ nat e else 1 / 10 ^ nat (- e)))))"

text \<open>Texts on which the model of \<^verbatim>\<open>float\<close> and \<^verbatim>\<open>int\<close> gives no answer: digit
  grouping with underscores (accepted from Python 3.6 only) and characters outside ASCII
  (Unicode digits and blanks).\<close>

definition unmodelled_text :: "string \<Rightarrow> bool" where
  "unmodelled_text s = list_ex (\<lambda>c. c = CHR ''_'' \<or> (128 :: nat) \<le> of_char c) s"

text \<open>\<^verbatim>\<open>float(s)\<close>: surrounding white space is ignored; \<^verbatim>\<open>inf\<close>, \<^verbatim>\<open>infinity\<close> and
  \<^verbatim>\<open>nan\<close> (any case, optionally signed) are floats that are no rationals; every other
  text that is no decimal literal raises \<^verbatim>\<open>ValueError\<close>.\<close>

definition float :: "string \<Rightarrow> error + rat" where
  "float s0 =
     (let s = strip s0 in
      if unmodelled_text s then Inl NotModelled
      else (case split_sign s of (sg, body) \<Rightarrow>
        if lower body \<in> {''inf'', ''infinity'', ''nan''} then Inl NotModelled
        else (case float_unsigned body of
                None \<Rightarrow> Inl ValueError
              | Some v \<Rightarrow> Inr (of_int sg * v))))"

text \<open>\<^verbatim>\<open>int(s)\<close> on a string: an optional sign and digits.\<close>

definition int_of_str :: "string \<Rightarrow> error + int" where
  "int_of_str s0 =
     (let s = strip s0 in
      if unmodelled_text s then Inl NotModelled
      else (case split_sign s of (sg, ds) \<Rightarrow>
        if ds \<noteq> [] \<and> list_all isdigit ds then Inr (sg * int (digits_val ds))
        else Inl ValueError))"

text \<open>\<^verbatim>\<open>int(x)\<close> on a float truncates towards zero.\<close>

definition int_of_float :: "rat \<Rightarrow> int" where
  "int_of_float x = (if 0 \<le> x then \<lfloor>x\<rfloor> else - \<lfloor>- x\<rfloor>)"

text \<open>\<^verbatim>\<open>str(x)\<close> of a non-zero float, in the range where Python prints positional
  notation (\<open>10\<^sup>-\<^sup>4 \<le> |x| < 10\<^sup>1\<^sup>6\<close>) and for values with at most 17 decimals: the
  integer digits, a point, and the decimals (\<^verbatim>\<open>0\<close> when there are none).\<close>

fun decimals :: "nat \<Rightarrow> rat \<Rightarrow> string option" where
  "decimals n x =
     (if x = 0 then Some []
      else (case n of
              0 \<Rightarrow> None
            | Suc m \<Rightarrow>
                (let d = \<lfloor>x * 10\<rfloor> in
                 map_option (\<lambda>ds. char_of (48 + nat d) # ds) (decimals m (x * 10 - of_int d)))))"

fun nat_digits :: "nat \<Rightarrow> nat \<Rightarrow> string" where
  "nat_digits 0 n = []"
| "nat_digits (Suc k) n =
     (if n < 10 then [char_of (48 + n)]
      else nat_digits k (n div 10) @ [char_of (48 + n mod 10)])"

definition str_float :: "rat \<Rightarrow> error + string" where
  "str_float x =
     (let a = \<bar>x\<bar> in
      if a < 1 / 10000 \<or> 10 ^ 16 \<le> a then Inl NotModelled
      else (case decimals 17 (a - of_int \<lfloor>a\<rfloor>) of
              None \<Rightarrow> Inl NotModelled
            | Some ds \<Rightarrow>
                Inr ((if x < 0 then ''-'' else [])
                     @ nat_digits 16 (nat \<lfloor>a\<rfloor>) @ ''.'' @ (if ds = [] then ''0'' else ds))))"

text \<open>\<^verbatim>\<open>eval(s)\<close> on the texts \<^verbatim>\<open>_float\<close> builds: a quotient of two float literals
  \<^verbatim>\<open>a./b.\<close>, each an optional sign and digits followed by the point that was appended.
  Any other Python expression is outside the model.\<close>

definition eval_literal :: "string \<Rightarrow> rat option" where
  "eval_literal s =
     (case split_sign s of (sg, body) \<Rightarrow>
        if 2 \<le> length body \<and> last body = CHR ''.'' \<and> list_all isdigit (butlast body)
        then Some (of_int sg * of_nat (digits_val (butlast body)))
        else None)"

definition eval :: "string \<Rightarrow> error + rat" where
  "eval s =
     (case split_on CHR ''/'' s of
        [a, b] \<Rightarrow>
          (case (eval_literal a, eval_literal b) of
             (Some x, Some y) \<Rightarrow> if y = 0 then Inl ZeroDivisionError else Inr (x / y)
           | _ \<Rightarrow> Inl NotModelled)
      | _ \<Rightarrow> Inl NotModelled)"

subsection \<open>The data model\<close>

text \<open>A reference names an instance of \<^verbatim>\<open>SymmetryElement\<close> in the store. The
  constructor numbers the instances with the class attribute \<^verbatim>\<open>symm_ID\<close>, which only
  grows, so the number an instance gets (its \<^verbatim>\<open>ID\<close>) is also its reference.\<close>

type_synonym ref = nat

text \<open>\<^verbatim>\<open>class SymmetryElement\<close>: \<^verbatim>\<open>matrix\<close> is the list of the rows of the
  \<^verbatim>\<open>np.matrix\<close>; an entry of \<^verbatim>\<open>trans\<close> is a number or Python's \<^verbatim>\<open>None\<close>
  (which \<^verbatim>\<open>_float\<close> returns for a text it cannot read).\<close>

record SymmetryElement =
  se_symms :: "string list"
  se_ID :: nat
  se_matrix :: "int list list"
  se_trans :: "rat option list"

text \<open>\<^verbatim>\<open>class ShelxlAtom\<close>: \<^verbatim>\<open>data\<close> is \<^verbatim>\<open>[name, float, float, ...]\<close>; the record
  keeps the name and the floats apart.\<close>

record ShelxlAtom =
  at_name :: string
  at_data :: "rat list"
  at_sfac :: rat
  at_frac :: "rat list"
  at_occ :: "rat \<times> rat"
  at_adp :: "rat list"
  at_qPeak :: bool

text \<open>\<^verbatim>\<open>class ShelxlMolecule\<close>. The attributes \<^verbatim>\<open>waveLength\<close> and \<^verbatim>\<open>z\<close> do not
  exist before \<^verbatim>\<open>setWavelength\<close> and \<^verbatim>\<open>setZ\<close> create them.\<close>

record ShelxlMolecule =
  mol_sfacs :: "string list"
  mol_customSfacData :: "string \<rightharpoonup> string \<times> rat list"
  mol_atoms :: "ShelxlAtom list"
  mol_qPeaks :: "ShelxlAtom list"
  mol_cell :: "rat list"
  mol_cerr :: "rat list"
  mol_lattOps :: "ref list"
  mol_symms :: "ref list"
  mol_centric :: bool
  mol_eqivs :: "string \<rightharpoonup> ref"
  mol_dfixs :: "(rat \<times> rat option \<times> (string \<times> string) list) list"
  mol_dfixErr :: rat
  mol_waveLength :: "rat option"
  mol_z :: "int option"

definition ShelxlMolecule_init :: ShelxlMolecule where
  "ShelxlMolecule_init =
     \<lparr>mol_sfacs = [], mol_customSfacData = Map.empty, mol_atoms = [], mol_qPeaks = [],
      mol_cell = [], mol_cerr = [], mol_lattOps = [], mol_symms = [], mol_centric = False,
      mol_eqivs = Map.empty, mol_dfixs = [], mol_dfixErr = 2 / 100,
      mol_waveLength = None, mol_z = None\<rparr>"

text \<open>The state the functions below read and write: the class attribute
  \<^verbatim>\<open>SymmetryElement.symm_ID\<close>, the store of the instances of
  \<^verbatim>\<open>SymmetryElement\<close>, and the class attribute \<^verbatim>\<open>ShelxlParser.CURRENTMOLECULE\<close>
  (\<^verbatim>\<open>None\<close>, or the structure under construction).\<close>

record pstate =
  symm_ID :: nat
  objs :: "ref \<rightharpoonup> SymmetryElement"
  CURRENTMOLECULE :: "ShelxlMolecule option"

text \<open>A call returns a value and the new state, or raises: the exception with the state
  at that moment (a handler of the caller goes on from there).\<close>

type_synonym 'a res = "(error \<times> pstate) + ('a \<times> pstate)"

definition bindR :: "'a res \<Rightarrow> ('a \<Rightarrow> pstate \<Rightarrow> 'b res) \<Rightarrow> 'b res" where
  "bindR r f = (case r of Inl ew \<Rightarrow> Inl ew | Inr (x, w) \<Rightarrow> f x w)"

text \<open>A computation without effect, run in state \<open>w\<close>.\<close>

definition pureR :: "error + 'a \<Rightarrow> pstate \<Rightarrow> 'a res" where
  "pureR r w = (case r of Inl e \<Rightarrow> Inl (e, w) | Inr x \<Rightarrow> Inr (x, w))"

text \<open>\<^verbatim>\<open>ShelxlParser.CURRENTMOLECULE.m(...)\<close> for a method \<open>m\<close> that only assigns
  attributes of the structure; on \<^verbatim>\<open>None\<close> the attribute lookup raises.\<close>

definition on_molecule :: "(ShelxlMolecule \<Rightarrow> ShelxlMolecule) \<Rightarrow> pstate \<Rightarrow> unit res" where
  "on_molecule f w =
     (case CURRENTMOLECULE w of
        None \<Rightarrow> Inl (AttributeError, w)
      | Some m \<Rightarrow> Inr ((), w\<lparr>CURRENTMOLECULE := Some (f m)\<rparr>))"

text \<open>Reading an attribute of the structure.\<close>

definition molecule_attr :: "(ShelxlMolecule \<Rightarrow> 'a) \<Rightarrow> pstate \<Rightarrow> 'a res" where
  "molecule_attr f w =
     (case CURRENTMOLECULE w of
        None \<Rightarrow> Inl (AttributeError, w)
      | Some m \<Rightarrow> Inr (f m, w))"

subsection \<open>\<^verbatim>\<open>class SymmetryElement\<close>\<close>

text \<open>\<^verbatim>\<open>_float\<close>: \<^verbatim>\<open>float(string)\<close>; on \<^verbatim>\<open>ValueError\<close>, a text with a slash is
  rewritten (\<^verbatim>\<open>1/2\<close> to \<^verbatim>\<open>1./2.\<close>) and evaluated, and for a text without one the
  function ends without \<^verbatim>\<open>return\<close>: the result is \<^verbatim>\<open>None\<close>.\<close>

definition SymmetryElement_float :: "string \<Rightarrow> error + rat option" where
  "SymmetryElement_float string =
     (case float string of
        Inr v \<Rightarrow> Inr (Some v)
      | Inl ValueError \<Rightarrow>
          if CHR ''/'' \<in> set string
          then (case eval (replace CHR ''/'' ''./'' string @ ''.'') of
                  Inl e \<Rightarrow> Inl e | Inr v \<Rightarrow> Inr (Some v))
          else Inr None
      | Inl e \<Rightarrow> Inl e)"

text \<open>\<^verbatim>\<open>_partition\<close>. The comparison \<^verbatim>\<open>sign is '-'\<close> is between one-character
  strings, which CPython shares, so it is equality.\<close>

definition SymmetryElement_partition :: "string \<Rightarrow> char \<Rightarrow> int \<times> string" where
  "SymmetryElement_partition symm c =
     (case partition_str symm c of (p0, p1, p2) \<Rightarrow>
        if p1 \<noteq> [] then
          (let sign = (if p0 \<noteq> [] then last p0 else CHR ''+'') in
           if sign = CHR ''-'' then (- 1, butlast p0 @ p2)
           else (1, replace CHR ''+'' [] (p0 @ p2)))
        else (0, symm))"

definition SymmetryElement_parse_line :: "string \<Rightarrow> error + int list \<times> rat option" where
  "SymmetryElement_parse_line symm0 =
     (let symm = replace CHR '' '' [] (lower symm0) in
      case SymmetryElement_partition symm CHR ''x'' of (ex, s1) \<Rightarrow>
      case SymmetryElement_partition s1 CHR ''y'' of (ey, s2) \<Rightarrow>
      case SymmetryElement_partition s2 CHR ''z'' of (ez, s3) \<Rightarrow>
        if s3 \<noteq> [] then
          (case SymmetryElement_float s3 of
             Inl e \<Rightarrow> Inl e
           | Inr t \<Rightarrow> Inr ([ex, ey, ez], t))
        else Inr ([ex, ey, ez], Some 0))"

text \<open>The loop of \<^verbatim>\<open>__init__\<close> over \<^verbatim>\<open>self.symms\<close>: the rows and the translations.\<close>

fun parse_symms :: "string list \<Rightarrow> error + int list list \<times> rat option list" where
  "parse_symms [] = Inr ([], [])"
| "parse_symms (symm # rest) =
     (case SymmetryElement_parse_line symm of
        Inl e \<Rightarrow> Inl e
      | Inr (line, t) \<Rightarrow>
          (case parse_symms rest of
             Inl e \<Rightarrow> Inl e
           | Inr (lines, ts) \<Rightarrow> Inr (line # lines, t # ts)))"

text \<open>\<^verbatim>\<open>__init__\<close>: takes the next \<^verbatim>\<open>symm_ID\<close>, parses, transposes the rows, and
  with \<^verbatim>\<open>centric\<close> multiplies its own new matrix and translation by \<open>-1\<close> (a
  \<^verbatim>\<open>TypeError\<close> when a translation is \<^verbatim>\<open>None\<close>). The new instance is stored under
  its number.\<close>

definition SymmetryElement_init :: "string list \<Rightarrow> bool \<Rightarrow> pstate \<Rightarrow> ref res" where
  "SymmetryElement_init symms centric w =
     (let ID = symm_ID w; w1 = w\<lparr>symm_ID := ID + 1\<rparr> in
      case parse_symms symms of
        Inl e \<Rightarrow> Inl (e, w1)
      | Inr (lines, ts) \<Rightarrow>
          (let matrix = transpose lines in
           if centric then
             (if list_ex (\<lambda>t. t = None) ts then Inl (TypeError, w1)
              else Inr (ID, w1\<lparr>objs := (objs w1)(ID \<mapsto>
                     \<lparr>se_symms = symms, se_ID = ID,
                      se_matrix = map (map uminus) matrix,
                      se_trans = map (map_option uminus) ts\<rparr>)\<rparr>))
           else Inr (ID, w1\<lparr>objs := (objs w1)(ID \<mapsto>
                     \<lparr>se_symms = symms, se_ID = ID, se_matrix = matrix,
                      se_trans = ts\<rparr>)\<rparr>)))"

text \<open>\<^verbatim>\<open>toShelxl\<close>: one text per \<open>i\<close> in \<^verbatim>\<open>range(3)\<close>. \<^verbatim>\<open>self.matrix[i,]\<close>,
  \<^verbatim>\<open>self.trans[i]\<close> and \<^verbatim>\<open>self.matrix[i, j]\<close> raise \<^verbatim>\<open>IndexError\<close> out of range.\<close>

definition axis_text :: "int \<Rightarrow> char \<Rightarrow> string" where
  "axis_text m axis =
     (let s = (if m = 0 then [] else [axis]) in
      if m < 0 then CHR ''-'' # s else if s \<noteq> [] then CHR ''+'' # s else s)"

definition toShelxl_line :: "SymmetryElement \<Rightarrow> nat \<Rightarrow> error + string" where
  "toShelxl_line self i =
     (if length (se_matrix self) \<le> i then Inl IndexError
      else if length (se_trans self) \<le> i then Inl IndexError
      else (case (case se_trans self ! i of
                    None \<Rightarrow> Inr []
                  | Some t \<Rightarrow> if t \<noteq> 0 then str_float t else Inr []) of
              Inl e \<Rightarrow> Inl e
            | Inr text \<Rightarrow>
                if length (se_matrix self ! i) < 3 then Inl IndexError
                else Inr (text @ axis_text (se_matrix self ! i ! 0) CHR ''X''
                               @ axis_text (se_matrix self ! i ! 1) CHR ''Y''
                               @ axis_text (se_matrix self ! i ! 2) CHR ''Z'')))"

definition toShelxl :: "SymmetryElement \<Rightarrow> error + string" where
  "toShelxl self =
     (case toShelxl_line self 0 of Inl e \<Rightarrow> Inl e | Inr l0 \<Rightarrow>
      case toShelxl_line self 1 of Inl e \<Rightarrow> Inl e | Inr l1 \<Rightarrow>
      case toShelxl_line self 2 of Inl e \<Rightarrow> Inl e | Inr l2 \<Rightarrow>
        Inr (join '', '' [l0, l1, l2]))"

text \<open>One component of the new translation of \<^verbatim>\<open>applyLattSymm\<close>:
  \<^verbatim>\<open>(self.trans[i] + lattSymm.trans[i])/1\<close>.\<close>

definition add_trans :: "rat option list \<Rightarrow> rat option list \<Rightarrow> nat \<Rightarrow> error + rat option" where
  "add_trans s l i =
     (if length s \<le> i \<or> length l \<le> i then Inl IndexError
      else (case (s ! i, l ! i) of
              (Some a, Some b) \<Rightarrow> Inr (Some (a + b))
            | _ \<Rightarrow> Inl TypeError))"

text \<open>\<^verbatim>\<open>applyLattSymm\<close>: the new instance is built by the constructor from the text
  \<^verbatim>\<open>self.toShelxl()\<close> (\<open>reparse\<close> is that first statement,
  \<^verbatim>\<open>SymmetryElement(self.toShelxl().split(','))\<close>), and then its attribute
  \<^verbatim>\<open>trans\<close> is assigned. (A reference
  without an instance does not occur in Python; the model has no answer for it.)\<close>

definition reparse :: "SymmetryElement \<Rightarrow> pstate \<Rightarrow> ref res" where
  "reparse s w =
     bindR (pureR (toShelxl s) w) (\<lambda>text w.
       SymmetryElement_init (split_on CHR '','' text) False w)"

definition applyLattSymm :: "ref \<Rightarrow> ref \<Rightarrow> pstate \<Rightarrow> ref res" where
  "applyLattSymm self lattSymm w =
     (case (objs w self, objs w lattSymm) of
        (Some s, Some l) \<Rightarrow>
          bindR (reparse s w) (\<lambda>newSymm w.
          bindR (pureR (add_trans (se_trans s) (se_trans l) 0) w) (\<lambda>t0 w.
          bindR (pureR (add_trans (se_trans s) (se_trans l) 1) w) (\<lambda>t1 w.
          bindR (pureR (add_trans (se_trans s) (se_trans l) 2) w) (\<lambda>t2 w.
            Inr (newSymm,
                 w\<lparr>objs := (objs w)(newSymm :=
                      map_option (\<lambda>n. n\<lparr>se_trans := [t0, t1, t2]\<rparr>) (objs w newSymm))\<rparr>)))))
      | _ \<Rightarrow> Inl (NotModelled, w))"

subsection \<open>\<^verbatim>\<open>class ShelxlMolecule\<close>: the methods the parsers call\<close>

definition addAtom :: "ShelxlAtom \<Rightarrow> ShelxlMolecule \<Rightarrow> ShelxlMolecule" where
  "addAtom atom self = self\<lparr>mol_atoms := mol_atoms self @ [atom]\<rparr>"

definition addQPeak :: "ShelxlAtom \<Rightarrow> ShelxlMolecule \<Rightarrow> ShelxlMolecule" where
  "addQPeak qPeak self = self\<lparr>mol_qPeaks := mol_qPeaks self @ [qPeak]\<rparr>"

definition setCell :: "rat list \<Rightarrow> ShelxlMolecule \<Rightarrow> ShelxlMolecule" where
  "setCell cell self = self\<lparr>mol_cell := cell\<rparr>"

definition setWavelength :: "rat \<Rightarrow> ShelxlMolecule \<Rightarrow> ShelxlMolecule" where
  "setWavelength wl self = self\<lparr>mol_waveLength := Some wl\<rparr>"

definition setZ :: "rat \<Rightarrow> ShelxlMolecule \<Rightarrow> ShelxlMolecule" where
  "setZ zf self = self\<lparr>mol_z := Some (int_of_float zf)\<rparr>"

definition setCerr :: "rat list \<Rightarrow> ShelxlMolecule \<Rightarrow> ShelxlMolecule" where
  "setCerr cerr self = self\<lparr>mol_cerr := cerr\<rparr>"

definition addSfac :: "string \<Rightarrow> ShelxlMolecule \<Rightarrow> ShelxlMolecule" where
  "addSfac sfac self = self\<lparr>mol_sfacs := mol_sfacs self @ [sfac]\<rparr>"

text \<open>\<^verbatim>\<open>[float(x) for x in xs]\<close>: the first text that is no float raises.\<close>

fun floats :: "string list \<Rightarrow> error + rat list" where
  "floats [] = Inr []"
| "floats (x # xs) =
     (case float x of
        Inl e \<Rightarrow> Inl e
      | Inr v \<Rightarrow> (case floats xs of Inl e \<Rightarrow> Inl e | Inr vs \<Rightarrow> Inr (v # vs)))"

definition addCustomSfac :: "string list \<Rightarrow> ShelxlMolecule \<Rightarrow> error + ShelxlMolecule" where
  "addCustomSfac data self =
     (case data of
        [] \<Rightarrow> Inl IndexError
      | symbol # rest \<Rightarrow>
          (case floats rest of
             Inl e \<Rightarrow> Inl e
           | Inr vs \<Rightarrow>
               Inr (self\<lparr>mol_customSfacData := (mol_customSfacData self)(symbol \<mapsto> (symbol, vs)),
                         mol_sfacs := mol_sfacs self @ [symbol]\<rparr>)))"

definition setCentric :: "bool \<Rightarrow> ShelxlMolecule \<Rightarrow> ShelxlMolecule" where
  "setCentric v self = self\<lparr>mol_centric := v\<rparr>"

definition setLattOps :: "ref list \<Rightarrow> ShelxlMolecule \<Rightarrow> ShelxlMolecule" where
  "setLattOps lattOps self = self\<lparr>mol_lattOps := lattOps\<rparr>"

definition addDfix ::
  "rat \<Rightarrow> rat option \<Rightarrow> (string \<times> string) list \<Rightarrow> ShelxlMolecule \<Rightarrow> ShelxlMolecule" where
  "addDfix v err targets self = self\<lparr>mol_dfixs := mol_dfixs self @ [(v, err, targets)]\<rparr>"

definition symms_append :: "ref \<Rightarrow> ShelxlMolecule \<Rightarrow> ShelxlMolecule" where
  "symms_append r self = self\<lparr>mol_symms := mol_symms self @ [r]\<rparr>"

text \<open>The loop \<^verbatim>\<open>for symm in self.lattOps\<close> of \<^verbatim>\<open>addSymm\<close>, which both of its
  occurrences run on \<^verbatim>\<open>newSymm\<close>.\<close>

fun addSymm_lattOps :: "ref \<Rightarrow> ref list \<Rightarrow> pstate \<Rightarrow> unit res" where
  "addSymm_lattOps newSymm [] w = Inr ((), w)"
| "addSymm_lattOps newSymm (symm # rest) w =
     bindR (applyLattSymm newSymm symm w) (\<lambda>lattSymm w.
     bindR (on_molecule (symms_append lattSymm) w) (\<lambda>_ w.
       addSymm_lattOps newSymm rest w))"

definition addSymm :: "string list \<Rightarrow> pstate \<Rightarrow> unit res" where
  "addSymm symmData w =
     bindR (SymmetryElement_init symmData False w) (\<lambda>newSymm w.
     bindR (on_molecule (symms_append newSymm) w) (\<lambda>_ w.
     bindR (molecule_attr mol_lattOps w) (\<lambda>lattOps w.
     bindR (addSymm_lattOps newSymm lattOps w) (\<lambda>_ w.
     bindR (molecule_attr mol_centric w) (\<lambda>centric w.
       if centric then
         bindR (SymmetryElement_init symmData True w) (\<lambda>c w.
         bindR (on_molecule (symms_append c) w) (\<lambda>_ w.
         bindR (molecule_attr mol_lattOps w) (\<lambda>lattOps w.
           addSymm_lattOps newSymm lattOps w)))
       else Inr ((), w))))))"

definition addEqiv :: "string \<Rightarrow> string list \<Rightarrow> pstate \<Rightarrow> unit res" where
  "addEqiv name data w =
     bindR (SymmetryElement_init data False w) (\<lambda>symm w.
       on_molecule (\<lambda>self. self\<lparr>mol_eqivs := (mol_eqivs self)(name \<mapsto> symm)\<rparr>) w)"

subsection \<open>\<^verbatim>\<open>_finalizeDfix\<close>: the restraint table\<close>

text \<open>The table \<^verbatim>\<open>dfixTable\<close>: atom name to partner name to (target, tolerance). The
  function builds it in a local variable and prints it; the model returns it.\<close>

type_synonym dfix_table = "string \<rightharpoonup> (string \<rightharpoonup> rat \<times> rat)"

text \<open>The body of \<^verbatim>\<open>for atom1, atom2 in pairs\<close>. The row of \<open>atom1\<close> is looked up
  under the upper-case name and written under \<open>atom2\<close> as the instruction spells it;
  \<open>atom2\<close> is put in upper case after that.\<close>

definition dfix_pair :: "rat \<Rightarrow> rat \<Rightarrow> dfix_table \<Rightarrow> string \<times> string \<Rightarrow> dfix_table" where
  "dfix_pair target err dfixTable p =
     (let atom1 = upper (fst p);
          atom2 = snd p;
          tableRow1 = (case dfixTable atom1 of Some row \<Rightarrow> row | None \<Rightarrow> Map.empty);
          table1 = dfixTable(atom1 \<mapsto>
                     (case tableRow1 atom2 of
                        Some _ \<Rightarrow> tableRow1
                      | None \<Rightarrow> tableRow1(atom2 \<mapsto> (target, err))));
          atom2u = upper atom2;
          tableRow2 = (case table1 atom2u of Some row \<Rightarrow> row | None \<Rightarrow> Map.empty)
      in table1(atom2u \<mapsto>
                  (case tableRow2 atom1 of
                     Some _ \<Rightarrow> tableRow2
                   | None \<Rightarrow> tableRow2(atom1 \<mapsto> (target, err)))))"

text \<open>The body of \<^verbatim>\<open>for target, err, pairs in self.dfixs\<close>; a tolerance that is
  \<^verbatim>\<open>None\<close> or zero is replaced by \<^verbatim>\<open>self.dfixErr\<close>.\<close>

definition dfix_entry ::
  "rat \<Rightarrow> dfix_table \<Rightarrow> rat \<times> rat option \<times> (string \<times> string) list \<Rightarrow> dfix_table" where
  "dfix_entry dfixErr dfixTable d =
     (case d of (target, err, pairs) \<Rightarrow>
        (let err1 = (case err of None \<Rightarrow> dfixErr | Some e \<Rightarrow> if e = 0 then dfixErr else e)
         in foldl (dfix_pair target err1) dfixTable pairs))"

definition finalizeDfix :: "ShelxlMolecule \<Rightarrow> dfix_table" where
  "finalizeDfix self =
     foldl (dfix_entry (mol_dfixErr self))
       (map_of (map (\<lambda>atom. (upper (at_name atom), Map.empty)) (rev (mol_atoms self))))
       (mol_dfixs self)"

definition finalize :: "ShelxlMolecule \<Rightarrow> dfix_table" where
  "finalize self = finalizeDfix self"

subsection \<open>\<^verbatim>\<open>class ShelxlAtom\<close> and the tokens\<close>

text \<open>\<^verbatim>\<open>ShelxlAtom.__init__\<close>: every word but the first is converted by \<^verbatim>\<open>float\<close>;
  \<^verbatim>\<open>data[0]\<close>, \<^verbatim>\<open>data[1]\<close> and \<^verbatim>\<open>data[5]\<close> must exist; the new atom registers
  itself with the current structure as an atom or, when its name starts with \<^verbatim>\<open>Q\<close>
  or \<^verbatim>\<open>q\<close>, as a peak.\<close>

definition ShelxlAtom_init :: "string \<Rightarrow> pstate \<Rightarrow> ShelxlAtom res" where
  "ShelxlAtom_init line w =
     (let ws = split line in
      case floats (tl ws) of
        Inl e \<Rightarrow> Inl (e, w)
      | Inr fs \<Rightarrow>
          if ws = [] \<or> length fs < 5 then Inl (IndexError, w)
          else
            (let atom = \<lparr>at_name = hd ws, at_data = fs, at_sfac = fs ! 0,
                         at_frac = take 3 (drop 1 fs),
                         at_occ = (of_int \<lfloor>fs ! 4\<rfloor>, fs ! 4 - of_int \<lfloor>fs ! 4\<rfloor>),
                         at_adp = drop 5 fs,
                         at_qPeak = (char_upper (hd (hd ws)) = CHR ''Q'')\<rparr>
             in bindR (on_molecule (if at_qPeak atom then addQPeak atom else addAtom atom) w)
                  (\<lambda>_ w. Inr (atom, w))))"

text \<open>What a parser hands back for a line: \<^verbatim>\<open>None\<close>, a \<^verbatim>\<open>ShelxlLine\<close>, a
  \<^verbatim>\<open>ShelxlAtom\<close>, or (from \<^verbatim>\<open>BaseParser.__call__\<close>) the line itself, a string.\<close>

datatype token = NoToken | LineToken string | AtomToken ShelxlAtom | RawLine string

text \<open>The truth value \<^verbatim>\<open>read\<close> tests before it keeps a token.\<close>

fun truthy :: "token \<Rightarrow> bool" where
  "truthy NoToken = False"
| "truthy (RawLine s) = (s \<noteq> [])"
| "truthy _ = True"

subsection \<open>The parsers\<close>

text \<open>The subclasses of \<^verbatim>\<open>BaseParser\<close> that hold a body; an instance is its class and
  its \<^verbatim>\<open>body\<close>. \<^verbatim>\<open>LineParser\<close> instances all hold the same table.\<close>

datatype kind =
  AtomParser | CellParser | CerrParser | SfacParser | LattParser | SymmParser
  | DfixParser | EqivParser

datatype parser = LineParser | Sub kind string

text \<open>A value of the table \<^verbatim>\<open>COMMANDS\<close>: the bound method \<^verbatim>\<open>self.doNothing\<close> or a
  class.\<close>

datatype action = doNothing | Open kind

text \<open>The dictionary display of \<^verbatim>\<open>LineParser.__init__\<close>, in the order written. A key
  written twice keeps the value written last.\<close>

definition COMMANDS_items :: "(string \<times> action) list" where
  "COMMANDS_items = [
      (''REM'', doNothing), (''BEDE'', doNothing), (''MOLE'', doNothing), (''TITL'', doNothing),
      (''CELL'', Open CellParser), (''ZERR'', Open CerrParser), (''LATT'', doNothing), (''SYMM'', Open SymmParser),
      (''SFAC'', Open SfacParser), (''UNIT'', doNothing), (''TEMP'', doNothing), (''L.S.'', doNothing),
      (''BOND'', doNothing), (''ACTA'', doNothing), (''LIST'', doNothing), (''FMAP'', doNothing),
      (''PLAN'', doNothing), (''WGHT'', doNothing), (''FVAR'', doNothing), (''SIMU'', doNothing),
      (''RIGU'', doNothing), (''SADI'', doNothing), (''SAME'', doNothing), (''DANG'', doNothing),
      (''AFIX'', doNothing), (''PART'', doNothing), (''HKLF'', doNothing), (''ABIN'', doNothing),
      (''ANIS'', doNothing), (''ANSC'', doNothing), (''ANSR'', doNothing), (''BASF'', doNothing),
      (''BIND'', doNothing), (''BLOC'', doNothing), (''BUMP'', doNothing), (''CGLS'', doNothing),
      (''CHIV'', doNothing), (''CONF'', doNothing), (''CONN'', doNothing), (''DAMP'', doNothing),
      (''DEFS'', doNothing), (''DELU'', doNothing), (''DFIX'', Open DfixParser), (''DISP'', doNothing),
      (''EADP'', doNothing), (''EQIV'', Open EqivParser), (''EXTI'', doNothing), (''EXYZ'', doNothing),
      (''FEND'', doNothing), (''FLAT'', doNothing), (''FMAP'', doNothing), (''FRAG'', doNothing),
      (''FREE'', doNothing), (''GRID'', doNothing), (''HFIX'', doNothing), (''HTAB'', doNothing),
      (''ISOR'', doNothing), (''LATT'', Open LattParser), (''LAUE'', doNothing), (''MERG'', doNothing),
      (''MORE'', doNothing), (''MPLA'', doNothing), (''NCSY'', doNothing), (''NEUT'', doNothing),
      (''OMIT'', doNothing), (''PLAN'', doNothing), (''PRIG'', doNothing), (''RESI'', doNothing),
      (''RTAB'', doNothing), (''SADI'', doNothing), (''SAME'', doNothing), (''SHEL'', doNothing),
      (''SIMU'', doNothing), (''SIZE'', doNothing), (''SPEC'', doNothing), (''STIR'', doNothing),
      (''SUMP'', doNothing), (''SWAT'', doNothing), (''TWIN'', doNothing), (''TWST'', doNothing),
      (''WIGL'', doNothing), (''WPDB'', doNothing), (''XNPD'', doNothing), (''REM'', doNothing),
      (''Q'', doNothing), (''END'', doNothing), (''BEDE'', doNothing), (''LONE'', doNothing),
      (''+'', doNothing)]"

definition COMMANDS :: "string \<rightharpoonup> action" where
  "COMMANDS = map_of (rev COMMANDS_items)"

text \<open>\<^verbatim>\<open>LattParser.LATTDICT\<close> is built when the module is loaded: the class body calls
  the constructor of \<^verbatim>\<open>SymmetryElement\<close> seven times, starting from
  \<^verbatim>\<open>symm_ID = 1\<close>.\<close>

definition LATTDICT_items :: "(nat \<times> string list list) list" where
  "LATTDICT_items = [
      (1, []),
      (2, [[''.5'', ''.5'', ''.5'']]),
      (3, []),
      (4, [[''.5'', ''.5'', ''0''], [''.5'', ''0'', ''.5''], [''0'', ''.5'', ''.5'']]),
      (5, [[''0'', ''.5'', ''.5'']]),
      (6, [[''.5'', ''0'', ''.5'']]),
      (7, [[''.5'', ''.5'', ''0'']])]"

fun new_elements :: "string list list \<Rightarrow> pstate \<Rightarrow> ref list res" where
  "new_elements [] w = Inr ([], w)"
| "new_elements (symms # rest) w =
     bindR (SymmetryElement_init symms False w) (\<lambda>r w.
     bindR (new_elements rest w) (\<lambda>rs w. Inr (r # rs, w)))"

fun new_table :: "(nat \<times> string list list) list \<Rightarrow> pstate \<Rightarrow> (nat \<times> ref list) list res" where
  "new_table [] w = Inr ([], w)"
| "new_table ((k, texts) # rest) w =
     bindR (new_elements texts w) (\<lambda>rs w.
     bindR (new_table rest w) (\<lambda>t w. Inr ((k, rs) # t, w)))"

definition module_load :: "(nat \<times> ref list) list res" where
  "module_load =
     new_table LATTDICT_items \<lparr>symm_ID = 1, objs = Map.empty, CURRENTMOLECULE = None\<rparr>"

definition LATTDICT :: "nat \<rightharpoonup> ref list" where
  "LATTDICT = (case module_load of Inr (t, w) \<Rightarrow> map_of t | Inl ew \<Rightarrow> Map.empty)"

text \<open>The state once the module is loaded.\<close>

definition loaded :: pstate where
  "loaded = (case module_load of Inr (t, w) \<Rightarrow> w | Inl (e, w) \<Rightarrow> w)"

text \<open>The methods \<^verbatim>\<open>finished\<close>.\<close>

definition CellParser_finished :: "string \<Rightarrow> pstate \<Rightarrow> unit res" where
  "CellParser_finished body w =
     bindR (pureR (floats (tl (split body))) w) (\<lambda>data w.
     bindR (on_molecule (setCell (tl data)) w) (\<lambda>_ w.
       case data of
         [] \<Rightarrow> Inl (IndexError, w)
       | d0 # _ \<Rightarrow> on_molecule (setWavelength d0) w))"

definition CerrParser_finished :: "string \<Rightarrow> pstate \<Rightarrow> unit res" where
  "CerrParser_finished body w =
     bindR (pureR (floats (tl (split body))) w) (\<lambda>data w.
     bindR (on_molecule (setCerr (tl data)) w) (\<lambda>_ w.
       case data of
         [] \<Rightarrow> Inl (IndexError, w)
       | d0 # _ \<Rightarrow> on_molecule (setZ d0) w))"

text \<open>The first loop of \<^verbatim>\<open>SfacParser.finished\<close>: is some word a float?\<close>

fun has_float :: "string list \<Rightarrow> error + bool" where
  "has_float [] = Inr False"
| "has_float (x # xs) =
     (case float x of
        Inr v \<Rightarrow> Inr True
      | Inl ValueError \<Rightarrow> has_float xs
      | Inl e \<Rightarrow> Inl e)"

fun addSfacs :: "string list \<Rightarrow> pstate \<Rightarrow> unit res" where
  "addSfacs [] w = Inr ((), w)"
| "addSfacs (sfac # rest) w = bindR (on_molecule (addSfac sfac) w) (\<lambda>_ w. addSfacs rest w)"

definition SfacParser_finished :: "string \<Rightarrow> pstate \<Rightarrow> unit res" where
  "SfacParser_finished body w =
     (let ws = tl (split body) in
      bindR (pureR (has_float ws) w) (\<lambda>custom w.
        if \<not> custom then addSfacs ws w
        else (case CURRENTMOLECULE w of
                None \<Rightarrow> Inl (AttributeError, w)
              | Some m \<Rightarrow>
                  (case addCustomSfac ws m of
                     Inl e \<Rightarrow> Inl (e, w)
                   | Inr m' \<Rightarrow> Inr ((), w\<lparr>CURRENTMOLECULE := Some m'\<rparr>)))))"

definition LattParser_finished :: "string \<Rightarrow> pstate \<Rightarrow> unit res" where
  "LattParser_finished body w =
     (let data = split body in
      if data = [] then Inl (IndexError, w)
      else
        bindR (pureR (int_of_str (last data)) w) (\<lambda>latt w.
        bindR (if 0 < latt then on_molecule (setCentric True) w else Inr ((), w)) (\<lambda>_ w.
          case LATTDICT (nat \<bar>latt\<bar>) of
            None \<Rightarrow> Inl (KeyError, w)
          | Some lattOps \<Rightarrow> on_molecule (setLattOps lattOps) w)))"

definition SymmParser_finished :: "string \<Rightarrow> pstate \<Rightarrow> unit res" where
  "SymmParser_finished body w =
     (let symmData = split_on CHR '','' (drop 4 body) in
      bindR (molecule_attr (\<lambda>self. ()) w) (\<lambda>_ w. addSymm symmData w))"

text \<open>\<^verbatim>\<open>DfixParser.finished\<close>. The call of \<^verbatim>\<open>addDfix\<close> stands inside the loop that
  fills \<^verbatim>\<open>pairs\<close>, and every call passes the same list object: a line with \<open>n\<close>
  pairs adds \<open>n\<close> entries, each of which holds all \<open>n\<close> pairs once the loop is over.\<close>

fun pairs_of :: "string list \<Rightarrow> (string \<times> string) list" where
  "pairs_of (a # b # rest) = (a, b) # pairs_of rest"
| "pairs_of _ = []"

definition addDfixs :: "rat \<Rightarrow> rat option \<Rightarrow> string list \<Rightarrow> pstate \<Rightarrow> unit res" where
  "addDfixs v err data w =
     (let pairs = pairs_of data in
      if pairs = [] then Inr ((), w)
      else on_molecule (addDfix v err pairs ^^ length pairs) w)"

definition DfixParser_finished :: "string \<Rightarrow> pstate \<Rightarrow> unit res" where
  "DfixParser_finished body w =
     (case split (drop 4 body) of
        [] \<Rightarrow> Inl (IndexError, w)
      | d0 # data \<Rightarrow>
          bindR (pureR (float d0) w) (\<lambda>v w.
            case data of
              [] \<Rightarrow> Inl (IndexError, w)
            | d1 # data' \<Rightarrow>
                (case float d1 of
                   Inl ValueError \<Rightarrow> addDfixs v None data w
                 | Inl e \<Rightarrow> Inl (e, w)
                 | Inr err \<Rightarrow> addDfixs v (Some err) data' w)))"

definition EqivParser_finished :: "string \<Rightarrow> pstate \<Rightarrow> unit res" where
  "EqivParser_finished body w =
     (case tl (split body) of
        [] \<Rightarrow> Inl (IndexError, w)
      | name # data \<Rightarrow>
          bindR (molecule_attr (\<lambda>self. ()) w) (\<lambda>_ w.
            addEqiv name (split_on CHR '','' (join '' '' data)) w))"

fun finished :: "kind \<Rightarrow> string \<Rightarrow> pstate \<Rightarrow> unit res" where
  "finished AtomParser body w = Inr ((), w)"
| "finished CellParser body w = CellParser_finished body w"
| "finished CerrParser body w = CerrParser_finished body w"
| "finished SfacParser body w = SfacParser_finished body w"
| "finished LattParser body w = LattParser_finished body w"
| "finished SymmParser body w = SymmParser_finished body w"
| "finished DfixParser body w = DfixParser_finished body w"
| "finished EqivParser body w = EqivParser_finished body w"

text \<open>\<^verbatim>\<open>self.RETURNTYPE(self.body)\<close>: \<^verbatim>\<open>ShelxlAtom\<close> for \<^verbatim>\<open>AtomParser\<close>,
  \<^verbatim>\<open>ShelxlLine\<close> for the others.\<close>

fun RETURNTYPE :: "kind \<Rightarrow> string \<Rightarrow> pstate \<Rightarrow> token res" where
  "RETURNTYPE AtomParser body w = bindR (ShelxlAtom_init body w) (\<lambda>a w. Inr (AtomToken a, w))"
| "RETURNTYPE k body w = Inr (LineToken body, w)"

text \<open>\<^verbatim>\<open>BaseParser.get\<close>.\<close>

definition get :: "kind \<Rightarrow> string \<Rightarrow> parser \<Rightarrow> pstate \<Rightarrow> (parser \<times> token) res" where
  "get k body previousParser w =
     (if \<not> endswith body CHR ''='' then
        bindR (finished k body w) (\<lambda>_ w.
        bindR (RETURNTYPE k body w) (\<lambda>tok w. Inr ((previousParser, tok), w)))
      else Inr ((Sub k (butlast body), NoToken), w))"

text \<open>\<^verbatim>\<open>LineParser.__call__\<close>. The handler \<^verbatim>\<open>except KeyError\<close> encloses the
  table lookup and the call of \<^verbatim>\<open>get\<close>, so it also catches a \<^verbatim>\<open>KeyError\<close> a
  \<^verbatim>\<open>finished\<close> raises.\<close>

definition LineParser_call :: "string \<Rightarrow> pstate \<Rightarrow> (parser \<times> token) res" where
  "LineParser_call line0 w =
     (let line = rstrip_chars (\<lambda>c. c = NL) line0 in
      if line = [] then Inr ((LineParser, LineToken line), w)
      else
        (let command = take 4 line in
         if hd command = CHR '' '' then Inr ((LineParser, LineToken line), w)
         else
           (case COMMANDS (rstrip command) of
              None \<Rightarrow> get AtomParser line LineParser w
            | Some doNothing \<Rightarrow> Inr ((LineParser, LineToken line), w)
            | Some (Open k) \<Rightarrow>
                (case get k line LineParser w of
                   Inl (KeyError, w') \<Rightarrow> get AtomParser line LineParser w'
                 | r \<Rightarrow> r))))"

text \<open>\<^verbatim>\<open>parser(line)\<close>: \<^verbatim>\<open>LineParser.__call__\<close>, \<^verbatim>\<open>AtomParser.__call__\<close>, and for
  the other classes \<^verbatim>\<open>BaseParser.__call__\<close>.\<close>

fun parser_call :: "parser \<Rightarrow> string \<Rightarrow> pstate \<Rightarrow> (parser \<times> token) res" where
  "parser_call LineParser line w = LineParser_call line w"
| "parser_call (Sub AtomParser body) line w =
     bindR (ShelxlAtom_init (body @ line) w) (\<lambda>a w. Inr ((LineParser, AtomToken a), w))"
| "parser_call (Sub k body) line w =
     bindR (finished k body w) (\<lambda>_ w. Inr ((LineParser, RawLine line), w))"

subsection \<open>\<^verbatim>\<open>class Reader\<close> and \<^verbatim>\<open>ShelxlParser.read\<close>\<close>

text \<open>The files: a name has a content or does not exist. A file object is the part of
  the content not yet read. \<^verbatim>\<open>readline\<close> takes the text up to and with the next line
  feed (or the rest of the file), and the empty string at the end of the file.\<close>

type_synonym files = "string \<rightharpoonup> string"

definition readline :: "string \<Rightarrow> string \<times> string" where
  "readline s =
     (case dropWhile (\<lambda>c. c \<noteq> NL) s of
        [] \<Rightarrow> (s, [])
      | _ # rest \<Rightarrow> (takeWhile (\<lambda>c. c \<noteq> NL) s @ [NL], rest))"

record Reader =
  rd_fp :: string
  rd_inserted :: "string option"

text \<open>\<^verbatim>\<open>Reader.insert\<close>: a file that cannot be found leaves \<^verbatim>\<open>self.inserted\<close> as it
  was (a message is printed).\<close>

definition Reader_insert :: "files \<Rightarrow> string \<Rightarrow> Reader \<Rightarrow> Reader" where
  "Reader_insert fs fileName rd =
     (case fs fileName of
        None \<Rightarrow> rd
      | Some content \<Rightarrow> rd\<lparr>rd_inserted := Some content\<rparr>)"

text \<open>One round of the generator \<^verbatim>\<open>readlines\<close>: the next line of the inserted file
  if there is one, else the next line of the base file, else the end. (The generator
  ends with \<^verbatim>\<open>raise StopIteration\<close>, which ends the \<^verbatim>\<open>for\<close> loop in the Python
  versions before 3.7 the module was written for.)\<close>

definition next_line :: "Reader \<Rightarrow> (string \<times> Reader) option" where
  "next_line rd =
     (case (case rd_inserted rd of
              None \<Rightarrow> ([], rd)
            | Some ins \<Rightarrow> (case readline ins of (n, rest) \<Rightarrow> (n, rd\<lparr>rd_inserted := Some rest\<rparr>)))
      of (n, rd1) \<Rightarrow>
        if n \<noteq> [] then Some (n, rd1)
        else (case readline (rd_fp rd1) of (m, rest) \<Rightarrow>
                if m \<noteq> [] then Some (m, rd1\<lparr>rd_fp := rest\<rparr>) else None))"

text \<open>The loop of \<^verbatim>\<open>read\<close>. A file that inserts itself is read for ever, so the loop
  takes fuel: one unit per line, and \<open>None\<close> when the fuel does not reach the end of the
  input.\<close>

fun read_loop ::
  "nat \<Rightarrow> files \<Rightarrow> Reader \<Rightarrow> parser \<Rightarrow> token list \<Rightarrow> pstate \<Rightarrow> (token list) res option" where
  "read_loop 0 fs rd p ls w = None"
| "read_loop (Suc k) fs rd p ls w =
     (case next_line rd of
        None \<Rightarrow> Some (Inr (ls, w))
      | Some (line, rd1) \<Rightarrow>
          (let plus = (hd line = CHR ''+'');
               rd2 = (if plus then Reader_insert fs (butlast (tl line)) rd1 else rd1);
               line2 = (if plus then ''+    '' @ tl line else line)
           in case parser_call p line2 w of
                Inl ew \<Rightarrow> Some (Inl ew)
              | Inr ((p', tok), w') \<Rightarrow>
                  read_loop k fs rd2 p' (if truthy tok then ls @ [tok] else ls) w'))"

text \<open>What a call of \<^verbatim>\<open>read\<close> leaves: the value of the call (the body has no
  \<^verbatim>\<open>return\<close> statement, so it is \<^verbatim>\<open>None\<close>), the list \<^verbatim>\<open>self.lines\<close> of the
  \<^verbatim>\<open>ShelxlParser\<close>, and the table \<^verbatim>\<open>finalize\<close> printed.\<close>

record outcome =
  returned :: "ShelxlMolecule option"
  sp_lines :: "token list"
  printed :: dfix_table

definition read :: "nat \<Rightarrow> files \<Rightarrow> string \<Rightarrow> token list \<Rightarrow> pstate \<Rightarrow> outcome res option" where
  "read fuel fs fileName ls0 w0 =
     (let w = w0\<lparr>CURRENTMOLECULE := Some ShelxlMolecule_init\<rparr> in
      case fs fileName of
        None \<Rightarrow> Some (Inl (FileNotFoundError, w))
      | Some content \<Rightarrow>
          (case read_loop fuel fs \<lparr>rd_fp = content, rd_inserted = None\<rparr> LineParser ls0 w of
             None \<Rightarrow> None
           | Some (Inl ew) \<Rightarrow> Some (Inl ew)
           | Some (Inr (ls, w1)) \<Rightarrow>
               (case CURRENTMOLECULE w1 of
                  None \<Rightarrow> Some (Inl (AttributeError, w1))
                | Some molecule \<Rightarrow>
                    Some (Inr (\<lparr>returned = None, sp_lines = ls, printed = finalize molecule\<rparr>,
                               w1\<lparr>CURRENTMOLECULE := None\<rparr>)))))"

subsection \<open>\<^verbatim>\<open>ShelxlMolecule.distance\<close>\<close>

text \<open>The geometry is computed on the reals: \<^verbatim>\<open>np.cos\<close>, \<^verbatim>\<open>np.pi\<close> and
  \<^verbatim>\<open>** .5\<close> are \<open>cos\<close>, \<open>pi\<close> and \<open>sqrt\<close>, and \<^verbatim>\<open>x % 1\<close> is the fractional
  part \<open>x - \<lfloor>x\<rfloor>\<close>. A negative \<^verbatim>\<open>dd\<close> gives \<^verbatim>\<open>nan\<close> in Python, a value the
  model does not have. Unpacking a sequence of the wrong length raises
  \<^verbatim>\<open>ValueError\<close>.\<close>

definition mod1 :: "real \<Rightarrow> real" where
  "mod1 x = x - of_int \<lfloor>x\<rfloor>"

definition distance :: "ShelxlMolecule \<Rightarrow> ShelxlAtom \<Rightarrow> ShelxlAtom \<Rightarrow> error + real" where
  "distance self atom1 atom2 =
     (case map of_rat (at_frac atom1) of
        [x, y, z] \<Rightarrow>
          (case map (\<lambda>v. of_rat v + 995 / 10) (at_frac atom2) of
             [xx, yy, zz] \<Rightarrow>
               (let dx = mod1 (xx - x) - 5 / 10;
                    dy = mod1 (yy - y) - 5 / 10;
                    dz = mod1 (zz - z) - 5 / 10
                in case map of_rat (mol_cell self) of
                     [a, b, c, alpha0, beta0, gamma0] \<Rightarrow>
                       (let alpha = alpha0 / 180 * pi;
                            beta = beta0 / 180 * pi;
                            gamma = gamma0 / 180 * pi;
                            dd = a ^ 2 * dx ^ 2 + b ^ 2 * dy ^ 2 + c ^ 2 * dz ^ 2
                                 + 2 * b * c * cos alpha * dy * dz
                                 + 2 * a * c * cos beta * dx * dz
                                 + 2 * a * b * cos gamma * dx * dy
                        in if dd < 0 then Inl NotModelled else Inr (sqrt dd))
                   | _ \<Rightarrow> Inl ValueError)
           | _ \<Rightarrow> Inl ValueError)
      | _ \<Rightarrow> Inl ValueError)"

text \<open>The distance as the specification words it: per axis
  \<open>d = ((frac2 + 99.5) - frac1) mod 1 - 0.5\<close>, and the quadratic form of the cell metric
  whose square root is returned, the angles converted from degrees to radians.\<close>

definition spec_axis :: "real \<Rightarrow> real \<Rightarrow> real" where
  "spec_axis frac1 frac2 = ((frac2 + 995 / 10) - frac1) - of_int \<lfloor>(frac2 + 995 / 10) - frac1\<rfloor> - 5 / 10"

definition spec_square ::
  "real \<Rightarrow> real \<Rightarrow> real \<Rightarrow> real \<Rightarrow> real \<Rightarrow> real \<Rightarrow> real \<Rightarrow> real \<Rightarrow> real \<Rightarrow> real" where
  "spec_square a b c alpha beta gamma dx dy dz =
     a\<^sup>2 * dx\<^sup>2 + b\<^sup>2 * dy\<^sup>2 + c\<^sup>2 * dz\<^sup>2
     + 2 * b * c * cos (alpha * pi / 180) * dy * dz
     + 2 * a * c * cos (beta * pi / 180) * dx * dz
     + 2 * a * b * cos (gamma * pi / 180) * dx * dy"

subsection \<open>Reading results\<close>

text \<open>The exception a call raised, if it raised; the state it left; the instance a
  returned reference names.\<close>

definition raised :: "'a res \<Rightarrow> error option" where
  "raised r = (case r of Inl (e, w) \<Rightarrow> Some e | Inr xw \<Rightarrow> None)"

definition state_of :: "'a res \<Rightarrow> pstate" where
  "state_of r = (case r of Inl (e, w) \<Rightarrow> w | Inr (x, w) \<Rightarrow> w)"

definition instance_of :: "ref res \<Rightarrow> SymmetryElement option" where
  "instance_of r = (case r of Inl ew \<Rightarrow> None | Inr (a, w) \<Rightarrow> objs w a)"

text \<open>The instances a list of references names in a state.\<close>

definition instances :: "pstate \<Rightarrow> ref list \<Rightarrow> SymmetryElement option list" where
  "instances w rs = map (objs w) rs"

text \<open>The numbers of the instances made so far lie below the counter.\<close>

definition store_ok :: "pstate \<Rightarrow> bool" where
  "store_ok w = (dom (objs w) \<subseteq> {..< symm_ID w})"

text \<open>Every entry of a matrix is \<open>-1\<close>, \<open>0\<close> or \<open>1\<close>.\<close>

definition coeff_ok :: "int \<Rightarrow> bool" where
  "coeff_ok x = (x = - 1 \<or> x = 0 \<or> x = 1)"

definition grid_ok :: "int list list \<Rightarrow> bool" where
  "grid_ok m = list_all (list_all coeff_ok) m"

text \<open>The state in which \<^verbatim>\<open>read\<close> has just created the structure, the module being
  loaded.\<close>

definition started :: pstate where
  "started = loaded\<lparr>CURRENTMOLECULE := Some ShelxlMolecule_init\<rparr>"

text \<open>The expanded symmetry list of the current structure, the references replaced by
  the instances they name.\<close>

definition symms_of :: "pstate \<Rightarrow> SymmetryElement option list" where
  "symms_of w = (case CURRENTMOLECULE w of None \<Rightarrow> [] | Some m \<Rightarrow> instances w (mol_symms m))"

text \<open>The state after a \<^verbatim>\<open>LATT\<close> instruction with a positive number, in a structure
  just created: the flag is set and the lattice operations are \<open>ops\<close>.\<close>

definition latt_state :: "ref list \<Rightarrow> pstate" where
  "latt_state ops = started\<lparr>CURRENTMOLECULE :=
            Some (ShelxlMolecule_init\<lparr>mol_centric := True, mol_lattOps := ops\<rparr>)\<rparr>"

text \<open>Two lines handed to the dispatcher one after the other, as the loop of
  \<^verbatim>\<open>read\<close> does: the second goes to the parser the first returned.\<close>

definition two_lines :: "string \<Rightarrow> string \<Rightarrow> pstate \<Rightarrow> (parser \<times> token) res" where
  "two_lines l1 l2 w = bindR (LineParser_call l1 w) (\<lambda>pt w. parser_call (fst pt) l2 w)"

text \<open>The table \<^verbatim>\<open>finalize\<close> builds for the current structure, and the entry of a
  partner in the row of an atom.\<close>

definition table_of :: "pstate \<Rightarrow> dfix_table" where
  "table_of w = (case CURRENTMOLECULE w of None \<Rightarrow> Map.empty | Some m \<Rightarrow> finalize m)"

definition dfix_lookup :: "dfix_table \<Rightarrow> string \<Rightarrow> string \<Rightarrow> (rat \<times> rat) option" where
  "dfix_lookup t a b = (case t a of None \<Rightarrow> None | Some row \<Rightarrow> row b)"


definition good_file :: files where
  "good_file = [''good.ins'' \<mapsto>
     ''CELL 1.54 10 10 10 90 90 90'' @ [NL] @ ''C1 1 0.1 0.2 0.3 11 0.05'' @ [NL]]"

text \<open>The atom of the second line of that file, and the structure the two lines build.\<close>

definition atom_C1 :: ShelxlAtom where
  "atom_C1 = \<lparr>at_name = ''C1'', at_data = [1, 1 / 10, 1 / 5, 3 / 10, 11, 1 / 20],
               at_sfac = 1, at_frac = [1 / 10, 1 / 5, 3 / 10], at_occ = (11, 0),
               at_adp = [1 / 20], at_qPeak = False\<rparr>"

definition good_molecule :: ShelxlMolecule where
  "good_molecule = ShelxlMolecule_init\<lparr>mol_atoms := [atom_C1],
      mol_cell := [10, 10, 10, 90, 90, 90], mol_waveLength := Some (77 / 50)\<rparr>"

text \<open>Inputs of the examples below: the operation \<^verbatim>\<open>Y,-X,Z\<close> (a fourfold rotation)
  as the first instance made after the module is loaded, the state that holds it, and the
  instance \<^verbatim>\<open>applyLattSymm\<close> makes of it with the lattice operation of
  \<^verbatim>\<open>LATTDICT[2]\<close>.\<close>

definition rot4 :: SymmetryElement where
  "rot4 = \<lparr>se_symms = [''Y'', ''-X'', ''Z''], se_ID = 8,
            se_matrix = [[0, - 1, 0], [1, 0, 0], [0, 0, 1]],
            se_trans = [Some 0, Some 0, Some 0]\<rparr>"

definition with_rot4 :: pstate where
  "with_rot4 = loaded\<lparr>symm_ID := 9, objs := (objs loaded)(8 \<mapsto> rot4)\<rparr>"

definition rot4_copy :: SymmetryElement where
  "rot4_copy = \<lparr>se_symms = [''-Y'', '' +X'', '' +Z''], se_ID = 9,
                 se_matrix = [[0, 1, 0], [- 1, 0, 0], [0, 0, 1]],
                 se_trans = [Some (1 / 2), Some (1 / 2), Some (1 / 2)]\<rparr>"

text \<open>The matrix of a text without axis symbols.\<close>

definition zero_grid :: "int list list" where
  "zero_grid = [[0, 0, 0], [0, 0, 0], [0, 0, 0]]"

section \<open>Running the model\<close>

text \<open>Equations that run the definitions above on given inputs.\<close>

lemma bindR_simps [simp]:
  "bindR (Inl ew) f = Inl ew"
  "bindR (Inr (x, w)) f = f x w"
  by (simp_all add: bindR_def)

lemma pureR_simps [simp]:
  "pureR (Inl e) w = Inl (e, w)"
  "pureR (Inr x) w = Inr (x, w)"
  by (simp_all add: pureR_def)

lemma on_molecule_Some [simp]:
  "CURRENTMOLECULE w = Some m \<Longrightarrow>
   on_molecule f w = Inr ((), w\<lparr>CURRENTMOLECULE := Some (f m)\<rparr>)"
  by (simp add: on_molecule_def)

lemma molecule_attr_Some [simp]:
  "CURRENTMOLECULE w = Some m \<Longrightarrow> molecule_attr f w = Inr (f m, w)"
  by (simp add: molecule_attr_def)

lemma init_plain:
  "parse_symms symms = Inr (ls, ts) \<Longrightarrow>
   SymmetryElement_init symms False w =
     Inr (symm_ID w,
          w\<lparr>symm_ID := symm_ID w + 1,
            objs := (objs w)(symm_ID w \<mapsto>
              \<lparr>se_symms = symms, se_ID = symm_ID w, se_matrix = transpose ls, se_trans = ts\<rparr>)\<rparr>)"
  by (simp add: SymmetryElement_init_def Let_def)

lemma init_centric:
  "parse_symms symms = Inr (ls, ts) \<Longrightarrow> \<not> list_ex (\<lambda>t. t = None) ts \<Longrightarrow>
   SymmetryElement_init symms True w =
     Inr (symm_ID w,
          w\<lparr>symm_ID := symm_ID w + 1,
            objs := (objs w)(symm_ID w \<mapsto>
              \<lparr>se_symms = symms, se_ID = symm_ID w,
               se_matrix = map (map uminus) (transpose ls),
               se_trans = map (map_option uminus) ts\<rparr>)\<rparr>)"
  by (simp add: SymmetryElement_init_def Let_def)

lemma reparse_eq:
  "toShelxl s = Inr text \<Longrightarrow> parse_symms (split_on CHR '','' text) = Inr (ls, ts) \<Longrightarrow>
   reparse s w =
     Inr (symm_ID w,
          w\<lparr>symm_ID := symm_ID w + 1,
            objs := (objs w)(symm_ID w \<mapsto>
              \<lparr>se_symms = split_on CHR '','' text, se_ID = symm_ID w,
               se_matrix = transpose ls, se_trans = ts\<rparr>)\<rparr>)"
  by (simp add: reparse_def init_plain)

lemma applyLattSymm_eq:
  assumes "objs w self = Some s" and "objs w lattSymm = Some l"
    and "toShelxl s = Inr text"
    and "parse_symms (split_on CHR '','' text) = Inr (ls, ts)"
    and "add_trans (se_trans s) (se_trans l) 0 = Inr t0"
    and "add_trans (se_trans s) (se_trans l) 1 = Inr t1"
    and "add_trans (se_trans s) (se_trans l) 2 = Inr t2"
  shows "applyLattSymm self lattSymm w =
     Inr (symm_ID w,
          w\<lparr>symm_ID := symm_ID w + 1,
            objs := (objs w)(symm_ID w \<mapsto>
              \<lparr>se_symms = split_on CHR '','' text, se_ID = symm_ID w,
               se_matrix = transpose ls, se_trans = [t0, t1, t2]\<rparr>)\<rparr>)"
  using assms by (simp add: applyLattSymm_def reparse_eq)

subsection \<open>The module as loaded\<close>

lemma parse_line_half: "SymmetryElement_parse_line ''.5'' = Inr ([0, 0, 0], Some (1 / 2))"
  by code_simp

lemma parse_line_zero: "SymmetryElement_parse_line ''0'' = Inr ([0, 0, 0], Some 0)"
  by code_simp

lemma transpose_zero: "transpose [[0, 0, 0], [0, 0, 0], [0, 0, 0::int]] = [[0, 0, 0], [0, 0, 0], [0, 0, 0]]"
  by code_simp

lemma module_load_eq:
  "module_load = Inr ([(1, []), (2, [1]), (3, []), (4, [2, 3, 4]), (5, [5]), (6, [6]), (7, [7])],
     \<lparr>symm_ID = 8,
      objs = [1 \<mapsto> \<lparr>se_symms = [''.5'', ''.5'', ''.5''], se_ID = 1, se_matrix = zero_grid, se_trans = [Some (1 / 2), Some (1 / 2), Some (1 / 2)]\<rparr>,
              2 \<mapsto> \<lparr>se_symms = [''.5'', ''.5'', ''0''], se_ID = 2, se_matrix = zero_grid, se_trans = [Some (1 / 2), Some (1 / 2), Some 0]\<rparr>,
              3 \<mapsto> \<lparr>se_symms = [''.5'', ''0'', ''.5''], se_ID = 3, se_matrix = zero_grid, se_trans = [Some (1 / 2), Some 0, Some (1 / 2)]\<rparr>,
              4 \<mapsto> \<lparr>se_symms = [''0'', ''.5'', ''.5''], se_ID = 4, se_matrix = zero_grid, se_trans = [Some 0, Some (1 / 2), Some (1 / 2)]\<rparr>,
              5 \<mapsto> \<lparr>se_symms = [''0'', ''.5'', ''.5''], se_ID = 5, se_matrix = zero_grid, se_trans = [Some 0, Some (1 / 2), Some (1 / 2)]\<rparr>,
              6 \<mapsto> \<lparr>se_symms = [''.5'', ''0'', ''.5''], se_ID = 6, se_matrix = zero_grid, se_trans = [Some (1 / 2), Some 0, Some (1 / 2)]\<rparr>,
              7 \<mapsto> \<lparr>se_symms = [''.5'', ''.5'', ''0''], se_ID = 7, se_matrix = zero_grid, se_trans = [Some (1 / 2), Some (1 / 2), Some 0]\<rparr>],
      CURRENTMOLECULE = None\<rparr>)"
  apply (simp add: module_load_def LATTDICT_items_def SymmetryElement_init_def Let_def
      parse_line_half parse_line_zero transpose_zero zero_grid_def)
  apply (simp add: eval_nat_numeral)
  done

lemma LATTDICT_eq:
  "LATTDICT = [1 \<mapsto> [], 2 \<mapsto> [1], 3 \<mapsto> [], 4 \<mapsto> [2, 3, 4], 5 \<mapsto> [5], 6 \<mapsto> [6], 7 \<mapsto> [7]]"
  by (auto simp add: LATTDICT_def module_load_eq fun_eq_iff)

lemma loaded_symm_ID: "symm_ID loaded = 8"
  by (simp add: loaded_def module_load_eq)

lemma loaded_CURRENTMOLECULE: "CURRENTMOLECULE loaded = None"
  by (simp add: loaded_def module_load_eq)

lemma loaded_objs_1:
  "objs loaded 1 = Some \<lparr>se_symms = [''.5'', ''.5'', ''.5''], se_ID = 1, se_matrix = zero_grid,
                          se_trans = [Some (1 / 2), Some (1 / 2), Some (1 / 2)]\<rparr>"
  by (simp add: loaded_def module_load_eq)

lemma loaded_dom: "dom (objs loaded) = {1, 2, 3, 4, 5, 6, 7}"
  by (auto simp add: loaded_def module_load_eq)

lemma loaded_store_ok: "store_ok loaded"
  by (simp add: store_ok_def loaded_dom loaded_symm_ID)

section \<open>The symmetry algebra\<close>

subsection \<open>Parsing, serialising and parsing again\<close>

lemma split_on_c6: "split_on CHR '','' ''1/2-X,+Y,1/2+Z'' = [''1/2-X'', ''+Y'', ''1/2+Z'']"
  by code_simp

lemma parse_c6:
  "parse_symms [''1/2-X'', ''+Y'', ''1/2+Z''] =
     Inr ([[- 1, 0, 0], [0, 1, 0], [0, 0, 1]], [Some (1 / 2), Some 0, Some (1 / 2)])"
  by code_simp

lemma transpose_c6:
  "transpose [[- 1, 0, 0], [0, 1, 0], [0, 0, 1::int]] = [[- 1, 0, 0], [0, 1, 0], [0, 0, 1]]"
  by code_simp

lemma toShelxl_c6:
  "toShelxl \<lparr>se_symms = ss, se_ID = i, se_matrix = [[- 1, 0, 0], [0, 1, 0], [0, 0, 1]],
             se_trans = [Some (1 / 2), Some 0, Some (1 / 2)]\<rparr> = Inr ''0.5-X, +Y, 0.5+Z''"
proof -
  have "str_float (1 / 2) = Inr ''0.5''" by code_simp
  then show ?thesis
    by (simp add: toShelxl_def toShelxl_line_def axis_text_def)
qed

lemma split_on_c6': "split_on CHR '','' ''0.5-X, +Y, 0.5+Z'' = [''0.5-X'', '' +Y'', '' 0.5+Z'']"
  by code_simp

lemma parse_c6':
  "parse_symms [''0.5-X'', '' +Y'', '' 0.5+Z''] =
     Inr ([[- 1, 0, 0], [0, 1, 0], [0, 0, 1]], [Some (1 / 2), Some 0, Some (1 / 2)])"
  by code_simp

text \<open>
  Claim C6. Parsing \<^verbatim>\<open>1/2-X,+Y,1/2+Z\<close> gives the matrix \<open>diag(-1, 1, 1)\<close> and the
  translation \<open>(0.5, 0, 0.5)\<close>; \<^verbatim>\<open>toShelxl\<close> serialises that instance as
  \<^verbatim>\<open>0.5-X, +Y, 0.5+Z\<close>, and the constructor run on the serialised text (in any
  state) gives the same matrix and the same translation.
\<close>

theorem roundtrip_example:
  "instance_of (SymmetryElement_init (split_on CHR '','' ''1/2-X,+Y,1/2+Z'') False w) =
     Some \<lparr>se_symms = [''1/2-X'', ''+Y'', ''1/2+Z''], se_ID = symm_ID w,
            se_matrix = [[- 1, 0, 0], [0, 1, 0], [0, 0, 1]],
            se_trans = [Some (1 / 2), Some 0, Some (1 / 2)]\<rparr>
   \<and> toShelxl \<lparr>se_symms = [''1/2-X'', ''+Y'', ''1/2+Z''], se_ID = symm_ID w,
            se_matrix = [[- 1, 0, 0], [0, 1, 0], [0, 0, 1]],
            se_trans = [Some (1 / 2), Some 0, Some (1 / 2)]\<rparr> = Inr ''0.5-X, +Y, 0.5+Z''
   \<and> map_option se_matrix (instance_of (reparse
         \<lparr>se_symms = [''1/2-X'', ''+Y'', ''1/2+Z''], se_ID = symm_ID w,
            se_matrix = [[- 1, 0, 0], [0, 1, 0], [0, 0, 1]],
            se_trans = [Some (1 / 2), Some 0, Some (1 / 2)]\<rparr> w')) =
       Some [[- 1, 0, 0], [0, 1, 0], [0, 0, 1]]
   \<and> map_option se_trans (instance_of (reparse
         \<lparr>se_symms = [''1/2-X'', ''+Y'', ''1/2+Z''], se_ID = symm_ID w,
            se_matrix = [[- 1, 0, 0], [0, 1, 0], [0, 0, 1]],
            se_trans = [Some (1 / 2), Some 0, Some (1 / 2)]\<rparr> w')) =
       Some [Some (1 / 2), Some 0, Some (1 / 2)]"
  by (simp add: split_on_c6 init_plain [OF parse_c6] transpose_c6 instance_of_def toShelxl_c6
      reparse_eq [OF toShelxl_c6 parse_c6' [unfolded split_on_c6' [symmetric]]])

subsection \<open>The lattice-translated copy of an operation with an asymmetric matrix\<close>

lemma parse_c5:
  "parse_symms [''Y'', ''-X'', ''Z''] = Inr ([[0, 1, 0], [- 1, 0, 0], [0, 0, 1]], [Some 0, Some 0, Some 0])"
  by code_simp

lemma transpose_c5:
  "transpose [[0, 1, 0], [- 1, 0, 0], [0, 0, 1::int]] = [[0, - 1, 0], [1, 0, 0], [0, 0, 1]]"
  "transpose [[0, - 1, 0], [1, 0, 0], [0, 0, 1::int]] = [[0, 1, 0], [- 1, 0, 0], [0, 0, 1]]"
  by code_simp+

lemma toShelxl_c5:
  "toShelxl \<lparr>se_symms = ss, se_ID = i, se_matrix = [[0, - 1, 0], [1, 0, 0], [0, 0, 1]],
             se_trans = [Some 0, Some 0, Some 0]\<rparr> = Inr ''-Y, +X, +Z''"
  by (simp add: toShelxl_def toShelxl_line_def axis_text_def)

lemma parse_c5':
  "parse_symms (split_on CHR '','' ''-Y, +X, +Z'') = Inr ([[0, - 1, 0], [1, 0, 0], [0, 0, 1]], [Some 0, Some 0, Some 0])"
  by code_simp

lemma split_on_c5': "split_on CHR '','' ''-Y, +X, +Z'' = [''-Y'', '' +X'', '' +Z'']"
  by code_simp

lemma init_rot4: "SymmetryElement_init [''Y'', ''-X'', ''Z''] False loaded = Inr (8, with_rot4)"
  by (simp add: init_plain [OF parse_c5] transpose_c5 loaded_symm_ID with_rot4_def rot4_def)

lemma apply_rot4:
  "applyLattSymm 8 1 with_rot4 =
     Inr (9, with_rot4\<lparr>symm_ID := 10, objs := (objs with_rot4)(9 \<mapsto> rot4_copy)\<rparr>)"
proof -
  let ?l = "\<lparr>se_symms = [''.5'', ''.5'', ''.5''], se_ID = 1, se_matrix = zero_grid,
              se_trans = [Some (1 / 2), Some (1 / 2), Some (1 / 2)]\<rparr>"
  have o8: "objs with_rot4 8 = Some rot4"
    by (simp add: with_rot4_def)
  have o1: "objs with_rot4 1 = Some ?l"
    using loaded_objs_1 by (simp add: with_rot4_def)
  have ts: "toShelxl rot4 = Inr ''-Y, +X, +Z''"
    by (simp add: rot4_def toShelxl_c5)
  have a0: "add_trans (se_trans rot4) (se_trans ?l) 0 = Inr (Some (1 / 2))"
    and a1: "add_trans (se_trans rot4) (se_trans ?l) 1 = Inr (Some (1 / 2))"
    and a2: "add_trans (se_trans rot4) (se_trans ?l) 2 = Inr (Some (1 / 2))"
    by (simp_all add: add_trans_def rot4_def)
  have "symm_ID with_rot4 = 9"
    by (simp add: with_rot4_def)
  with applyLattSymm_eq [OF o8 o1 ts parse_c5' a0 a1 a2] show ?thesis
    by (simp add: transpose_c5 split_on_c5' rot4_copy_def)
qed

text \<open>
  Claim C5, at the operation \<^verbatim>\<open>Y,-X,Z\<close> and the lattice operation of
  \<^verbatim>\<open>LATTDICT[2]\<close>: the operation has the matrix with rows \<open>(0,-1,0)\<close>, \<open>(1,0,0)\<close>,
  \<open>(0,0,1)\<close>; the copy \<^verbatim>\<open>applyLattSymm\<close> returns has the translation
  \<open>(0.5, 0.5, 0.5)\<close>, the raw sum, but its matrix has the rows \<open>(0,1,0)\<close>, \<open>(-1,0,0)\<close>,
  \<open>(0,0,1)\<close>: the transpose of the operation's matrix, not the matrix itself.
\<close>

theorem applyLattSymm_transposes:
  "map_option se_matrix (instance_of (SymmetryElement_init [''Y'', ''-X'', ''Z''] False loaded)) =
     Some [[0, - 1, 0], [1, 0, 0], [0, 0, 1]]
   \<and> instance_of (bindR (SymmetryElement_init [''Y'', ''-X'', ''Z''] False loaded)
        (\<lambda>op w. applyLattSymm op 1 w)) =
     Some \<lparr>se_symms = [''-Y'', '' +X'', '' +Z''], se_ID = 9,
            se_matrix = [[0, 1, 0], [- 1, 0, 0], [0, 0, 1]],
            se_trans = [Some (1 / 2), Some (1 / 2), Some (1 / 2)]\<rparr>"
  unfolding init_rot4 bindR_simps apply_rot4
  by (simp add: instance_of_def with_rot4_def rot4_def rot4_copy_def)

section \<open>The geometry\<close>

text \<open>
  Claim C9. For a cell \<open>a, b, c, \<alpha>, \<beta>, \<gamma>\<close> and two atoms with three fractional
  coordinates each, \<^verbatim>\<open>distance\<close> computes per axis
  \<open>d = ((frac2 + 99.5) - frac1) mod 1 - 0.5\<close> and returns the square root of
  \<open>a\<^sup>2dx\<^sup>2 + b\<^sup>2dy\<^sup>2 + c\<^sup>2dz\<^sup>2 + 2bc cos(\<alpha>) dy dz + 2ac cos(\<beta>) dx dz + 2ab cos(\<gamma>) dx dy\<close>,
  the angles taken in radians (for a negative form Python returns \<^verbatim>\<open>nan\<close>, which the
  model does not express). For the cubic cell \<open>a = b = c = 10\<close>, \<open>\<alpha> = \<beta> = \<gamma> = 90\<close> and
  atoms at \<open>(0, 0, 0)\<close> and \<open>(0.5, 0, 0)\<close> the result is within \<open>10\<^sup>-\<^sup>6\<close> of \<open>5\<close>. (Floats
  are computed as reals here; in this example every cross term is a product with zero, so
  the value does not depend on how \<open>cos\<close> and \<open>pi\<close> are rounded.)
\<close>

theorem distance_formula:
  "distance (self\<lparr>mol_cell := [a, b, c, alpha, beta, gamma]\<rparr>)
            (atom1\<lparr>at_frac := [x1, y1, z1]\<rparr>) (atom2\<lparr>at_frac := [x2, y2, z2]\<rparr>) =
     (if spec_square (of_rat a) (of_rat b) (of_rat c) (of_rat alpha) (of_rat beta) (of_rat gamma)
           (spec_axis (of_rat x1) (of_rat x2)) (spec_axis (of_rat y1) (of_rat y2))
           (spec_axis (of_rat z1) (of_rat z2)) < 0
      then Inl NotModelled
      else Inr (sqrt (spec_square (of_rat a) (of_rat b) (of_rat c)
                        (of_rat alpha) (of_rat beta) (of_rat gamma)
                        (spec_axis (of_rat x1) (of_rat x2)) (spec_axis (of_rat y1) (of_rat y2))
                        (spec_axis (of_rat z1) (of_rat z2)))))
   \<and> (\<exists>d. distance (self\<lparr>mol_cell := [10, 10, 10, 90, 90, 90]\<rparr>)
                 (atom1\<lparr>at_frac := [0, 0, 0]\<rparr>) (atom2\<lparr>at_frac := [1 / 2, 0, 0]\<rparr>) = Inr d
            \<and> \<bar>d - 5\<bar> \<le> 1 / 10 ^ 6)"
proof -
  have ax: "spec_axis 0 (1 / 2) = - 1 / 2" "spec_axis 0 0 = 0"
    by (simp_all add: spec_axis_def floor_eq_iff)
  have gen: "distance (self\<lparr>mol_cell := [a, b, c, alpha, beta, gamma]\<rparr>)
            (atom1\<lparr>at_frac := [x1, y1, z1]\<rparr>) (atom2\<lparr>at_frac := [x2, y2, z2]\<rparr>) =
     (if spec_square (of_rat a) (of_rat b) (of_rat c) (of_rat alpha) (of_rat beta) (of_rat gamma)
           (spec_axis (of_rat x1) (of_rat x2)) (spec_axis (of_rat y1) (of_rat y2))
           (spec_axis (of_rat z1) (of_rat z2)) < 0
      then Inl NotModelled
      else Inr (sqrt (spec_square (of_rat a) (of_rat b) (of_rat c)
                        (of_rat alpha) (of_rat beta) (of_rat gamma)
                        (spec_axis (of_rat x1) (of_rat x2)) (spec_axis (of_rat y1) (of_rat y2))
                        (spec_axis (of_rat z1) (of_rat z2)))))"
    for self atom1 atom2 a b c alpha beta gamma x1 y1 z1 x2 y2 z2
    by (simp add: distance_def Let_def mod1_def spec_axis_def spec_square_def mult_ac)
  have sq: "spec_square 10 10 10 90 90 90 (- 1 / 2) 0 0 = 25"
    by (simp add: spec_square_def power2_eq_square)
  have "sqrt 25 = 5"
    using real_sqrt_abs [of 5] by simp
  with sq have "distance (self\<lparr>mol_cell := [10, 10, 10, 90, 90, 90]\<rparr>)
               (atom1\<lparr>at_frac := [0, 0, 0]\<rparr>) (atom2\<lparr>at_frac := [1 / 2, 0, 0]\<rparr>) = Inr 5"
    by (simp add: gen ax of_rat_divide)
  with gen show ?thesis by simp
qed

section \<open>The lattice type\<close>

lemma COMMANDS_LATT: "COMMANDS ''LATT'' = Some (Open LattParser)"
  by code_simp

lemma rstrip_LATT: "rstrip ''LATT'' = ''LATT''"
  by code_simp

lemma LATTDICT_range:
  assumes "N \<noteq> 0" and "\<bar>N\<bar> \<le> 7"
  shows "\<exists>ops. LATTDICT (nat \<bar>N\<bar>) = Some ops
            \<and> length ops = [0, 1, 0, 3, 1, 1, 1] ! (nat \<bar>N\<bar> - 1)"
proof -
  from assms have "nat \<bar>N\<bar> \<in> {1, 2, 3, 4, 5, 6, 7}" by simp arith
  then show ?thesis
    by (auto simp add: LATTDICT_eq)
qed

lemma LattParser_finished_eq:
  assumes "split body \<noteq> []" and "int_of_str (last (split body)) = Inr N"
    and "LATTDICT (nat \<bar>N\<bar>) = Some ops" and "CURRENTMOLECULE w = Some m"
  shows "LattParser_finished body w =
           Inr ((), w\<lparr>CURRENTMOLECULE :=
                        Some (m\<lparr>mol_centric := (0 < N \<or> mol_centric m), mol_lattOps := ops\<rparr>)\<rparr>)"
  using assms
  by (cases "0 < N") (simp_all add: LattParser_finished_def Let_def setCentric_def setLattOps_def)

text \<open>
  Claim C7, amended. Let the last word of a \<^verbatim>\<open>LATT\<close> instruction read as the integer \<open>N\<close>
  with \<open>|N|\<close> in \<open>1..7\<close>. Then \<^verbatim>\<open>LattParser.finished\<close> registers the entry of the
  fixed table \<^verbatim>\<open>LATTDICT\<close> for \<open>|N|\<close> as the lattice translations of the structure;
  the entries for \<open>|N| = 1..7\<close> have 0, 1, 0, 3, 1, 1, 1 elements; and the centrosymmetric
  flag is set when \<open>N\<close> is positive and left as it was otherwise (\<open>False\<close> in a new
  structure, so that the flag then says whether \<open>N\<close> is positive). A line that starts
  with \<^verbatim>\<open>LATT\<close> and does not end in \<^verbatim>\<open>=\<close> is dispatched to this parser.
\<close>

theorem LATT_table_and_flag:
  assumes "split body \<noteq> []" and "int_of_str (last (split body)) = Inr N"
    and "N \<noteq> 0" and "\<bar>N\<bar> \<le> 7" and "CURRENTMOLECULE w = Some m"
  shows "\<exists>ops. LATTDICT (nat \<bar>N\<bar>) = Some ops
           \<and> length ops = [0, 1, 0, 3, 1, 1, 1] ! (nat \<bar>N\<bar> - 1)
           \<and> LattParser_finished body w =
               Inr ((), w\<lparr>CURRENTMOLECULE :=
                  Some (m\<lparr>mol_centric := (0 < N \<or> mol_centric m), mol_lattOps := ops\<rparr>)\<rparr>)
           \<and> (take 4 body = ''LATT'' \<and> last body \<noteq> NL \<and> last body \<noteq> CHR ''=''
                \<longrightarrow> LineParser_call body w =
                  Inr ((LineParser, LineToken body), w\<lparr>CURRENTMOLECULE :=
                    Some (m\<lparr>mol_centric := (0 < N \<or> mol_centric m), mol_lattOps := ops\<rparr>)\<rparr>))"
proof -
  from LATTDICT_range [OF assms(3,4)] obtain ops
    where ops: "LATTDICT (nat \<bar>N\<bar>) = Some ops"
      "length ops = [0, 1, 0, 3, 1, 1, 1] ! (nat \<bar>N\<bar> - 1)"
    by blast
  note fin = LattParser_finished_eq [OF assms(1,2) ops(1) assms(5)]
  have "LineParser_call body w =
          Inr ((LineParser, LineToken body), w\<lparr>CURRENTMOLECULE :=
            Some (m\<lparr>mol_centric := (0 < N \<or> mol_centric m), mol_lattOps := ops\<rparr>)\<rparr>)"
    if k: "take 4 body = ''LATT''" and nl: "last body \<noteq> NL" and eq: "last body \<noteq> CHR ''=''"
  proof -
    from k have ne: "body \<noteq> []" by auto
    with nl have r: "rstrip_chars (\<lambda>c. c = NL) body = body"
      by (simp add: rstrip_chars_def dropWhile_eq_Nil_conv rev_is_Nil_conv)
         (cases body rule: rev_cases, simp_all)
    from k ne have h: "hd (take 4 body) \<noteq> CHR '' ''" by simp
    from eq have e: "\<not> endswith body CHR ''=''" by (simp add: endswith_def)
    show ?thesis
      using ne h e fin
      by (simp add: LineParser_call_def r k rstrip_LATT COMMANDS_LATT get_def Let_def)
  qed
  with ops fin show ?thesis by blast
qed

lemma split_LATT4: "split ''LATT -4'' = [''LATT'', ''-4'']"
  by code_simp

lemma int_LATT4: "int_of_str ''-4'' = Inr (- 4)"
  by code_simp

lemma started_molecule: "CURRENTMOLECULE started = Some ShelxlMolecule_init"
  by (simp add: started_def)

theorem LATT_table_and_flag_witness:
  "LATTDICT 4 = Some [2, 3, 4]
   \<and> LineParser_call ''LATT -4'' started =
       Inr ((LineParser, LineToken ''LATT -4''),
            started\<lparr>CURRENTMOLECULE := Some (ShelxlMolecule_init\<lparr>mol_lattOps := [2, 3, 4]\<rparr>)\<rparr>)"
proof -
  have "split ''LATT -4'' \<noteq> []" and "int_of_str (last (split ''LATT -4'')) = Inr (- 4)"
    by (simp_all add: split_LATT4 int_LATT4)
  from LATT_table_and_flag [OF this _ _ started_molecule]
  show ?thesis
    by (simp add: LATTDICT_eq NL_def ShelxlMolecule_init_def)
qed

text \<open>A line that starts with \<^verbatim>\<open>LATT\<close> and does not end in \<^verbatim>\<open>=\<close>, through the
  dispatcher.\<close>

lemma split_LATT2: "split ''LATT 2'' = [''LATT'', ''2'']"
  by code_simp

lemma int_LATT2: "int_of_str ''2'' = Inr 2"
  by code_simp

lemma LineParser_call_LATT:
  assumes "split body \<noteq> []" and "int_of_str (last (split body)) = Inr N"
    and "LATTDICT (nat \<bar>N\<bar>) = Some ops" and "CURRENTMOLECULE w = Some m"
    and k: "take 4 body = ''LATT''" and nl: "last body \<noteq> NL" and eq: "last body \<noteq> CHR ''=''"
  shows "LineParser_call body w =
          Inr ((LineParser, LineToken body), w\<lparr>CURRENTMOLECULE :=
            Some (m\<lparr>mol_centric := (0 < N \<or> mol_centric m), mol_lattOps := ops\<rparr>)\<rparr>)"
proof -
  note fin = LattParser_finished_eq [OF assms(1-4)]
  from k have ne: "body \<noteq> []" by auto
  with nl have r: "rstrip_chars (\<lambda>c. c = NL) body = body"
    by (simp add: rstrip_chars_def dropWhile_eq_Nil_conv rev_is_Nil_conv)
       (cases body rule: rev_cases, simp_all)
  from k ne have h: "hd (take 4 body) \<noteq> CHR '' ''" by simp
  from eq have e: "\<not> endswith body CHR ''=''" by (simp add: endswith_def)
  show ?thesis
    using ne h e fin
    by (simp add: LineParser_call_def r k rstrip_LATT COMMANDS_LATT get_def Let_def)
qed

lemma LineParser_call_LATT2:
  "LineParser_call ''LATT 2'' started =
     Inr ((LineParser, LineToken ''LATT 2''),
          started\<lparr>CURRENTMOLECULE :=
            Some (ShelxlMolecule_init\<lparr>mol_centric := True, mol_lattOps := [1]\<rparr>)\<rparr>)"
proof -
  have "split ''LATT 2'' \<noteq> []" and "int_of_str (last (split ''LATT 2'')) = Inr 2"
    by (simp_all add: split_LATT2 int_LATT2)
  from LineParser_call_LATT [OF this _ started_molecule, of "[1]"]
  show ?thesis
    by (simp add: LATTDICT_eq NL_def)
qed

text \<open>
  Claim C7 as the specification words it does not hold for every \<^verbatim>\<open>LATT\<close>
  instruction: the sign of \<open>N\<close> does not select the flag once the flag is set. After
  \<^verbatim>\<open>LATT 2\<close> the instruction \<^verbatim>\<open>LATT -4\<close> registers the three translations of the
  table entry for 4 and leaves the centrosymmetric flag \<open>True\<close>.
\<close>

theorem LATT_negative_keeps_flag:
  "two_lines ''LATT 2'' ''LATT -4'' started =
     Inr ((LineParser, LineToken ''LATT -4''),
          started\<lparr>CURRENTMOLECULE :=
            Some (ShelxlMolecule_init\<lparr>mol_centric := True, mol_lattOps := [2, 3, 4]\<rparr>)\<rparr>)"
proof -
  have "split ''LATT -4'' \<noteq> []" and "int_of_str (last (split ''LATT -4'')) = Inr (- 4)"
    by (simp_all add: split_LATT4 int_LATT4)
  from LineParser_call_LATT [OF this, where ops = "[2, 3, 4]"
      and w = "started\<lparr>CURRENTMOLECULE :=
            Some (ShelxlMolecule_init\<lparr>mol_centric := True, mol_lattOps := [1]\<rparr>)\<rparr>"
      and m = "ShelxlMolecule_init\<lparr>mol_centric := True, mol_lattOps := [1]\<rparr>"]
  have "LineParser_call ''LATT -4''
          (started\<lparr>CURRENTMOLECULE :=
            Some (ShelxlMolecule_init\<lparr>mol_centric := True, mol_lattOps := [1]\<rparr>)\<rparr>) =
        Inr ((LineParser, LineToken ''LATT -4''),
          started\<lparr>CURRENTMOLECULE :=
            Some (ShelxlMolecule_init\<lparr>mol_centric := True, mol_lattOps := [2, 3, 4]\<rparr>)\<rparr>)"
    by (simp add: LATTDICT_eq NL_def)
  then show ?thesis
    unfolding two_lines_def LineParser_call_LATT2 bindR_simps fst_conv parser_call.simps .
qed

section \<open>Every instance has a grid of signs, and none is changed\<close>

lemma grid_ok_alt: "grid_ok m = list_all (list_all coeff_ok) m"
  by (simp add: grid_ok_def)

lemma partition_coeff: "coeff_ok (fst (SymmetryElement_partition s c))"
  by (simp add: SymmetryElement_partition_def coeff_ok_def Let_def split: prod.splits)

lemma parse_line_row:
  assumes "SymmetryElement_parse_line symm = Inr (line, t)"
  shows "length line = 3 \<and> list_all coeff_ok line"
proof -
  let ?s = "replace CHR '' '' [] (lower symm)"
  obtain ex s1 where p1: "SymmetryElement_partition ?s CHR ''x'' = (ex, s1)" by force
  obtain ey s2 where p2: "SymmetryElement_partition s1 CHR ''y'' = (ey, s2)" by force
  obtain ez s3 where p3: "SymmetryElement_partition s2 CHR ''z'' = (ez, s3)" by force
  from assms have "line = [ex, ey, ez]"
    by (simp add: SymmetryElement_parse_line_def Let_def p1 p2 p3 split: if_splits sum.splits)
  moreover have "coeff_ok ex" "coeff_ok ey" "coeff_ok ez"
    using partition_coeff [of ?s "CHR ''x''"] partition_coeff [of s1 "CHR ''y''"]
      partition_coeff [of s2 "CHR ''z''"]
    by (simp_all add: p1 p2 p3)
  ultimately show ?thesis by simp
qed

lemma parse_symms_rows:
  "parse_symms symms = Inr (ls, ts) \<Longrightarrow>
     length ls = length symms \<and> list_all (\<lambda>l. length l = 3 \<and> list_all coeff_ok l) ls"
proof (induction symms arbitrary: ls ts)
  case Nil
  then show ?case by simp
next
  case (Cons symm rest)
  from Cons.prems obtain line t ls' ts'
    where l: "SymmetryElement_parse_line symm = Inr (line, t)"
      and r: "parse_symms rest = Inr (ls', ts')" and eq: "ls = line # ls'"
    by (auto split: sum.splits)
  from parse_line_row [OF l] Cons.IH [OF r] eq show ?case by simp
qed

lemma transpose_entries:
  assumes "list_all (list_all P) xs"
  shows "list_all (list_all P) (transpose xs)"
proof -
  have "list_all P (transpose xs ! i)" if "i < length (transpose xs)" for i
  proof -
    have "transpose xs ! i = map (\<lambda>ys. ys ! i) (filter (\<lambda>ys. i < length ys) xs)"
      using that by (rule nth_transpose)
    with assms show ?thesis
      by (auto simp add: list_all_iff)
  qed
  then show ?thesis
    by (auto simp add: list_all_length)
qed

lemma transpose_3x3:
  assumes "length ls = 3" and "list_all (\<lambda>l. length l = 3 \<and> Q l) ls"
  shows "length (transpose ls) = 3 \<and> list_all (\<lambda>row. length row = 3) (transpose ls)"
proof -
  from assms(1) obtain r1 r2 r3 where ls: "ls = [r1, r2, r3]"
    by (auto simp add: length_Suc_conv numeral_3_eq_3)
  with assms(2) obtain a1 a2 a3 b1 b2 b3 c1 c2 c3
    where "r1 = [a1, a2, a3]" "r2 = [b1, b2, b3]" "r3 = [c1, c2, c3]"
    by (auto simp add: length_Suc_conv numeral_3_eq_3)
  with ls show ?thesis by simp
qed

lemma neg_coeff:
  "list_all (list_all coeff_ok) m \<Longrightarrow> list_all (list_all coeff_ok) (map (map uminus) m)"
  by (auto simp add: list_all_iff coeff_ok_def)

lemma init_result:
  assumes "SymmetryElement_init symms centric w = Inr (r, w')"
  shows "r = symm_ID w \<and> symm_ID w' = symm_ID w + 1
     \<and> (\<exists>e. objs w' = (objs w)(r \<mapsto> e) \<and> grid_ok (se_matrix e)
          \<and> (length symms = 3 \<longrightarrow>
               length (se_matrix e) = 3 \<and> list_all (\<lambda>row. length row = 3) (se_matrix e)))"
proof -
  from assms obtain ls ts where p: "parse_symms symms = Inr (ls, ts)"
    by (auto simp add: SymmetryElement_init_def Let_def split: sum.splits)
  note rows = parse_symms_rows [OF p]
  then have ok: "list_all (list_all coeff_ok) ls"
    by (auto simp add: list_all_iff)
  have g: "list_all (list_all coeff_ok) (transpose ls)"
    using ok by (rule transpose_entries)
  have shape: "length symms = 3 \<Longrightarrow>
      length (transpose ls) = 3 \<and> list_all (\<lambda>row. length row = 3) (transpose ls)"
    using rows transpose_3x3 [of ls "list_all coeff_ok"] by simp
  show ?thesis
  proof (cases centric)
    case True
    with assms p have nn: "\<not> list_ex (\<lambda>t. t = None) ts"
      by (auto simp add: SymmetryElement_init_def Let_def split: if_splits)
    let ?e = "\<lparr>se_symms = symms, se_ID = symm_ID w,
               se_matrix = map (map uminus) (transpose ls),
               se_trans = map (map_option uminus) ts\<rparr>"
    from assms True have "r = symm_ID w" "symm_ID w' = symm_ID w + 1"
      "objs w' = (objs w)(r \<mapsto> ?e)"
      by (auto simp add: init_centric [OF p nn])
    moreover have "grid_ok (se_matrix ?e)"
      using neg_coeff [OF g] by (simp add: grid_ok_def)
    moreover have "length symms = 3 \<longrightarrow>
        length (se_matrix ?e) = 3 \<and> list_all (\<lambda>row. length row = 3) (se_matrix ?e)"
      using shape by (auto simp add: list_all_iff)
    ultimately show ?thesis by blast
  next
    case False
    let ?e = "\<lparr>se_symms = symms, se_ID = symm_ID w, se_matrix = transpose ls, se_trans = ts\<rparr>"
    from assms False have "r = symm_ID w" "symm_ID w' = symm_ID w + 1"
      "objs w' = (objs w)(r \<mapsto> ?e)"
      by (auto simp add: init_plain [OF p])
    moreover have "grid_ok (se_matrix ?e)"
      using g by (simp add: grid_ok_def)
    moreover have "length symms = 3 \<longrightarrow>
        length (se_matrix ?e) = 3 \<and> list_all (\<lambda>row. length row = 3) (se_matrix ?e)"
      using shape by simp
    ultimately show ?thesis by blast
  qed
qed

lemma fresh_frame:
  assumes "store_ok w" and "objs w' = (objs w)(symm_ID w \<mapsto> e)" and "symm_ID w' = symm_ID w + 1"
  shows "objs w' |` dom (objs w) = objs w \<and> store_ok w'"
proof -
  from assms(1) have fresh: "symm_ID w \<notin> dom (objs w)"
    by (auto simp add: store_ok_def)
  have "objs w' |` dom (objs w) = objs w"
  proof
    fix a
    show "(objs w' |` dom (objs w)) a = objs w a"
      using fresh assms(2) by (cases "a \<in> dom (objs w)") (auto simp add: restrict_map_def)
  qed
  moreover from assms have "store_ok w'"
    by (auto simp add: store_ok_def)
  ultimately show ?thesis by simp
qed

lemma applyLattSymm_result:
  assumes "applyLattSymm self lattSymm w = Inr (r, w')"
  shows "r = symm_ID w \<and> symm_ID w' = symm_ID w + 1
     \<and> (\<exists>e. objs w' = (objs w)(r \<mapsto> e) \<and> grid_ok (se_matrix e))"
proof -
  from assms obtain s l where sl: "objs w self = Some s" "objs w lattSymm = Some l"
    by (auto simp add: applyLattSymm_def split: option.splits)
  from assms sl obtain tx where t: "toShelxl s = Inr tx"
    by (cases "toShelxl s") (auto simp add: applyLattSymm_def reparse_def)
  from assms sl t obtain r1 w1 where
    i: "SymmetryElement_init (split_on CHR '','' tx) False w = Inr (r1, w1)"
    by (cases "SymmetryElement_init (split_on CHR '','' tx) False w")
       (auto simp add: applyLattSymm_def reparse_def)
  from init_result [OF i] obtain e where e: "r1 = symm_ID w" "symm_ID w1 = symm_ID w + 1"
    "objs w1 = (objs w)(r1 \<mapsto> e)" "grid_ok (se_matrix e)"
    by blast
  from assms sl t i e obtain t0 t1 t2 where
    "r = r1" "w' = w1\<lparr>objs := (objs w1)(r1 \<mapsto> e\<lparr>se_trans := [t0, t1, t2]\<rparr>)\<rparr>"
    by (auto simp add: applyLattSymm_def reparse_def bindR_def pureR_def split: sum.splits)
  with e show ?thesis by auto
qed

text \<open>
  Claim C10. In a state whose instances all bear numbers below the counter, an instance
  made by the constructor from texts (plain, or with \<^verbatim>\<open>centric\<close>: the centrosymmetric
  negation) or by \<^verbatim>\<open>applyLattSymm\<close> (the lattice translation) has every entry of its
  matrix in \<open>{-1, 0, 1}\<close>; from three texts the constructor makes a matrix of three rows
  of three entries; and neither operation changes an instance that existed before: the
  store restricted to the old references is the old store.
\<close>

theorem elements_grid_and_immutable:
  assumes "store_ok w"
  shows "(SymmetryElement_init symms centric w = Inr (r, w') \<longrightarrow>
            (\<exists>e. objs w' r = Some e \<and> grid_ok (se_matrix e)
               \<and> (length symms = 3 \<longrightarrow>
                    length (se_matrix e) = 3 \<and> list_all (\<lambda>row. length row = 3) (se_matrix e)))
            \<and> objs w' |` dom (objs w) = objs w \<and> store_ok w')
       \<and> (applyLattSymm self lattSymm w = Inr (r, w') \<longrightarrow>
            (\<exists>e. objs w' r = Some e \<and> grid_ok (se_matrix e))
            \<and> objs w' |` dom (objs w) = objs w \<and> store_ok w')"
proof (intro conjI impI)
  assume a: "SymmetryElement_init symms centric w = Inr (r, w')"
  from init_result [OF a] obtain e where e: "r = symm_ID w" "symm_ID w' = symm_ID w + 1"
    "objs w' = (objs w)(r \<mapsto> e)" "grid_ok (se_matrix e)"
    "length symms = 3 \<longrightarrow> length (se_matrix e) = 3 \<and> list_all (\<lambda>row. length row = 3) (se_matrix e)"
    by blast
  then show "\<exists>e. objs w' r = Some e \<and> grid_ok (se_matrix e)
       \<and> (length symms = 3 \<longrightarrow>
            length (se_matrix e) = 3 \<and> list_all (\<lambda>row. length row = 3) (se_matrix e))"
    by auto
  from fresh_frame [OF assms, of w' e] e
  show "objs w' |` dom (objs w) = objs w" and "store_ok w'" by simp_all
next
  assume a: "applyLattSymm self lattSymm w = Inr (r, w')"
  from applyLattSymm_result [OF a] obtain e where e: "r = symm_ID w"
    "symm_ID w' = symm_ID w + 1" "objs w' = (objs w)(r \<mapsto> e)" "grid_ok (se_matrix e)"
    by blast
  then show "\<exists>e. objs w' r = Some e \<and> grid_ok (se_matrix e)" by auto
  from fresh_frame [OF assms, of w' e] e
  show "objs w' |` dom (objs w) = objs w" and "store_ok w'" by simp_all
qed

theorem elements_grid_and_immutable_witness:
  "store_ok loaded
   \<and> SymmetryElement_init [''Y'', ''-X'', ''Z''] False loaded = Inr (8, with_rot4)
   \<and> grid_ok (se_matrix rot4)
   \<and> objs with_rot4 |` dom (objs loaded) = objs loaded
   \<and> applyLattSymm 8 1 with_rot4 =
       Inr (9, with_rot4\<lparr>symm_ID := 10, objs := (objs with_rot4)(9 \<mapsto> rot4_copy)\<rparr>)
   \<and> grid_ok (se_matrix rot4_copy)
   \<and> (objs with_rot4)(9 \<mapsto> rot4_copy) |` dom (objs with_rot4) = objs with_rot4"
proof -
  note one = elements_grid_and_immutable [OF loaded_store_ok,
      of "[''Y'', ''-X'', ''Z'']" False 8 with_rot4 8 1]
  from one init_rot4 have s: "store_ok with_rot4" by blast
  note two = elements_grid_and_immutable [OF s, of "[''Y'', ''-X'', ''Z'']" False 9
      "with_rot4\<lparr>symm_ID := 10, objs := (objs with_rot4)(9 \<mapsto> rot4_copy)\<rparr>" 8 1]
  have "objs with_rot4 8 = Some rot4"
    by (simp add: with_rot4_def)
  with one two init_rot4 apply_rot4 loaded_store_ok show ?thesis
    by simp
qed

section \<open>The expansion of a \<^verbatim>\<open>SYMM\<close> instruction\<close>

lemma loaded_objs_Suc0:
  "objs loaded (Suc 0) = Some \<lparr>se_symms = [''.5'', ''.5'', ''.5''], se_ID = 1, se_matrix = zero_grid,
                          se_trans = [Some (1 / 2), Some (1 / 2), Some (1 / 2)]\<rparr>"
  using loaded_objs_1 by simp

lemma COMMANDS_SYMM: "COMMANDS ''SYMM'' = Some (Open SymmParser)"
  by code_simp

lemma rstrip_SYMM: "rstrip ''SYMM'' = ''SYMM''"
  by code_simp

lemma split_on_xyz: "split_on CHR '','' '' X,Y,Z'' = ['' X'', ''Y'', ''Z'']"
  by code_simp

lemma parse_xyz:
  "parse_symms ['' X'', ''Y'', ''Z''] = Inr ([[1, 0, 0], [0, 1, 0], [0, 0, 1]], [Some 0, Some 0, Some 0])"
  by code_simp

lemma transpose_unit:
  "transpose [[1, 0, 0], [0, 1, 0], [0, 0, 1::int]] = [[1, 0, 0], [0, 1, 0], [0, 0, 1]]"
  by code_simp

lemma toShelxl_unit:
  "toShelxl \<lparr>se_symms = ss, se_ID = i, se_matrix = [[1, 0, 0], [0, 1, 0], [0, 0, 1]],
             se_trans = [Some 0, Some 0, Some 0]\<rparr> = Inr ''+X, +Y, +Z''"
  by (simp add: toShelxl_def toShelxl_line_def axis_text_def)

lemma split_on_unit: "split_on CHR '','' ''+X, +Y, +Z'' = [''+X'', '' +Y'', '' +Z'']"
  by code_simp

lemma parse_unit:
  "parse_symms [''+X'', '' +Y'', '' +Z''] =
     Inr ([[1, 0, 0], [0, 1, 0], [0, 0, 1]], [Some 0, Some 0, Some 0])"
  by code_simp

lemma split_LATT1: "split ''LATT 1'' = [''LATT'', ''1'']"
  by code_simp

lemma int_LATT1: "int_of_str ''1'' = Inr 1"
  by code_simp

lemma LineParser_call_LATT1:
  "LineParser_call ''LATT 1'' started =
     Inr ((LineParser, LineToken ''LATT 1''),
          started\<lparr>CURRENTMOLECULE :=
            Some (ShelxlMolecule_init\<lparr>mol_centric := True, mol_lattOps := []\<rparr>)\<rparr>)"
proof -
  have "split ''LATT 1'' \<noteq> []" and "int_of_str (last (split ''LATT 1'')) = Inr 1"
    by (simp_all add: split_LATT1 int_LATT1)
  from LineParser_call_LATT [OF this _ started_molecule, of "[]"]
  show ?thesis
    by (simp add: LATTDICT_eq NL_def)
qed

lemma LineParser_call_SYMM:
  assumes "addSymm ['' X'', ''Y'', ''Z''] w = Inr ((), w')" and "CURRENTMOLECULE w = Some m"
  shows "LineParser_call ''SYMM X,Y,Z'' w = Inr ((LineParser, LineToken ''SYMM X,Y,Z''), w')"
  using assms
  by (simp add: LineParser_call_def rstrip_chars_def NL_def rstrip_SYMM COMMANDS_SYMM get_def
      endswith_def SymmParser_finished_def split_on_xyz Let_def)

lemma addSymm_LATT2:
  "map (map_option (\<lambda>e. (se_matrix e, se_trans e)))
     (symms_of (state_of (addSymm ['' X'', ''Y'', ''Z''] (latt_state [1])))) =
   [Some ([[1, 0, 0], [0, 1, 0], [0, 0, 1]], [Some 0, Some 0, Some 0]),
    Some ([[1, 0, 0], [0, 1, 0], [0, 0, 1]], [Some (1 / 2), Some (1 / 2), Some (1 / 2)]),
    Some ([[- 1, 0, 0], [0, - 1, 0], [0, 0, - 1]], [Some 0, Some 0, Some 0]),
    Some ([[1, 0, 0], [0, 1, 0], [0, 0, 1]], [Some (1 / 2), Some (1 / 2), Some (1 / 2)])]"
  by (simp add: addSymm_def latt_state_def started_def loaded_symm_ID loaded_objs_Suc0
      init_plain [OF parse_xyz] init_centric [OF parse_xyz] transpose_unit
      applyLattSymm_def reparse_def toShelxl_unit split_on_unit init_plain [OF parse_unit]
      add_trans_def symms_append_def symms_of_def instances_def state_of_def
      ShelxlMolecule_init_def)

lemma addSymm_LATT2_returns:
  "addSymm ['' X'', ''Y'', ''Z''] (latt_state [1]) =
     Inr ((), state_of (addSymm ['' X'', ''Y'', ''Z''] (latt_state [1])))"
  by (simp add: addSymm_def latt_state_def started_def loaded_symm_ID loaded_objs_Suc0
      init_plain [OF parse_xyz] init_centric [OF parse_xyz] transpose_unit
      applyLattSymm_def reparse_def toShelxl_unit split_on_unit init_plain [OF parse_unit]
      add_trans_def symms_append_def state_of_def
      ShelxlMolecule_init_def)

lemma addSymm_LATT1:
  "map (map_option (\<lambda>e. (se_matrix e, se_trans e)))
     (symms_of (state_of (addSymm ['' X'', ''Y'', ''Z''] (latt_state [])))) =
   [Some ([[1, 0, 0], [0, 1, 0], [0, 0, 1]], [Some 0, Some 0, Some 0]),
    Some ([[- 1, 0, 0], [0, - 1, 0], [0, 0, - 1]], [Some 0, Some 0, Some 0])]"
  by (simp add: addSymm_def latt_state_def started_def loaded_symm_ID
      init_plain [OF parse_xyz] init_centric [OF parse_xyz] transpose_unit
      symms_append_def symms_of_def instances_def state_of_def
      ShelxlMolecule_init_def)

lemma addSymm_LATT1_returns:
  "addSymm ['' X'', ''Y'', ''Z''] (latt_state []) =
     Inr ((), state_of (addSymm ['' X'', ''Y'', ''Z''] (latt_state [])))"
  by (simp add: addSymm_def latt_state_def started_def loaded_symm_ID
      init_plain [OF parse_xyz] init_centric [OF parse_xyz] transpose_unit
      symms_append_def state_of_def
      ShelxlMolecule_init_def)

lemma latt_state_molecule:
  "CURRENTMOLECULE (latt_state ops) =
     Some (ShelxlMolecule_init\<lparr>mol_centric := True, mol_lattOps := ops\<rparr>)"
  by (simp add: latt_state_def)

text \<open>
  Claim C4, as the code runs. After \<^verbatim>\<open>LATT 2\<close> (flag set, one lattice translation
  \<open>(1/2, 1/2, 1/2)\<close>) the instruction \<^verbatim>\<open>SYMM X,Y,Z\<close> extends the symmetry list by four
  instances: the identity, its translated copy, the negated identity, and the translated
  copy of the identity a second time; no translated copy of the negated element is made.
  After \<^verbatim>\<open>LATT 1\<close> (flag set, no lattice translation) the same instruction gives two
  instances, the identity and its negation.
\<close>

theorem addSymm_repeats_lattice_copies:
  "map (map_option (\<lambda>e. (se_matrix e, se_trans e)))
     (symms_of (state_of (two_lines ''LATT 2'' ''SYMM X,Y,Z'' started))) =
   [Some ([[1, 0, 0], [0, 1, 0], [0, 0, 1]], [Some 0, Some 0, Some 0]),
    Some ([[1, 0, 0], [0, 1, 0], [0, 0, 1]], [Some (1 / 2), Some (1 / 2), Some (1 / 2)]),
    Some ([[- 1, 0, 0], [0, - 1, 0], [0, 0, - 1]], [Some 0, Some 0, Some 0]),
    Some ([[1, 0, 0], [0, 1, 0], [0, 0, 1]], [Some (1 / 2), Some (1 / 2), Some (1 / 2)])]
   \<and> map (map_option (\<lambda>e. (se_matrix e, se_trans e)))
     (symms_of (state_of (two_lines ''LATT 1'' ''SYMM X,Y,Z'' started))) =
   [Some ([[1, 0, 0], [0, 1, 0], [0, 0, 1]], [Some 0, Some 0, Some 0]),
    Some ([[- 1, 0, 0], [0, - 1, 0], [0, 0, - 1]], [Some 0, Some 0, Some 0])]"
proof -
  have a: "state_of (two_lines ''LATT 2'' ''SYMM X,Y,Z'' started) =
             state_of (addSymm ['' X'', ''Y'', ''Z''] (latt_state [1]))"
    unfolding two_lines_def LineParser_call_LATT2 bindR_simps fst_conv parser_call.simps
      latt_state_def [symmetric]
      LineParser_call_SYMM [OF addSymm_LATT2_returns latt_state_molecule]
    by (simp add: state_of_def)
  have b: "state_of (two_lines ''LATT 1'' ''SYMM X,Y,Z'' started) =
             state_of (addSymm ['' X'', ''Y'', ''Z''] (latt_state []))"
    unfolding two_lines_def LineParser_call_LATT1 bindR_simps fst_conv parser_call.simps
      latt_state_def [symmetric]
      LineParser_call_SYMM [OF addSymm_LATT1_returns latt_state_molecule]
    by (simp add: state_of_def)
  show ?thesis
    unfolding a b addSymm_LATT2 addSymm_LATT1 by simp
qed

section \<open>Continuation lines\<close>

lemma COMMANDS_CELL: "COMMANDS ''CELL'' = Some (Open CellParser)"
  by code_simp

lemma rstrip_CELL: "rstrip ''CELL'' = ''CELL''"
  by code_simp

lemma split_cell4:
  "split ''CELL 1.54 10 10 10'' = [''CELL'', ''1.54'', ''10'', ''10'', ''10'']"
  by code_simp

lemma floats_cell4: "floats [''1.54'', ''10'', ''10'', ''10''] = Inr [77 / 50, 10, 10, 10]"
  by code_simp

lemma LineParser_call_cell4:
  "LineParser_call ''CELL 1.54 10 10 10='' w =
     Inr ((Sub CellParser ''CELL 1.54 10 10 10'', NoToken), w)"
  by (simp add: LineParser_call_def rstrip_chars_def NL_def rstrip_CELL COMMANDS_CELL get_def
      endswith_def Let_def)

lemma CellParser_finished_cell4:
  "CURRENTMOLECULE w = Some m \<Longrightarrow>
   CellParser_finished ''CELL 1.54 10 10 10'' w =
     Inr ((), w\<lparr>CURRENTMOLECULE :=
                  Some (m\<lparr>mol_cell := [10, 10, 10], mol_waveLength := Some (77 / 50)\<rparr>)\<rparr>)"
  by (simp add: CellParser_finished_def split_cell4 floats_cell4 setCell_def setWavelength_def
      del: floats.simps)

lemma COMMANDS_C1: "COMMANDS ''C1 1'' = None"
  by code_simp

lemma rstrip_C1: "rstrip ''C1 1'' = ''C1 1''"
  by code_simp

lemma split_atom:
  "split ''C1 1 0.1 0.2 0.3 11 0.05'' = [''C1'', ''1'', ''0.1'', ''0.2'', ''0.3'', ''11'', ''0.05'']"
  by code_simp

lemma floats_atom:
  "floats [''1'', ''0.1'', ''0.2'', ''0.3'', ''11'', ''0.05''] = Inr [1, 1 / 10, 1 / 5, 3 / 10, 11, 1 / 20]"
  by code_simp

lemma char_upper_C: "char_upper CHR ''C'' = CHR ''C''"
  by code_simp

lemma LineParser_call_atom5:
  "LineParser_call ''C1 1 0.1 0.2 0.3='' w =
     Inr ((Sub AtomParser ''C1 1 0.1 0.2 0.3'', NoToken), w)"
  by (simp add: LineParser_call_def rstrip_chars_def NL_def rstrip_C1 COMMANDS_C1 get_def
      endswith_def Let_def)

text \<open>
  Claim C3, as the code runs. The line \<^verbatim>\<open>CELL 1.54 10 10 10=\<close> opens a
  \<^verbatim>\<open>CellParser\<close> whose body is the line without the \<^verbatim>\<open>=\<close>. Called with the
  next line \<^verbatim>\<open> 90 90 90\<close>, \<^verbatim>\<open>BaseParser.__call__\<close> runs \<^verbatim>\<open>finished\<close> on the
  body as it is and hands the next line back as the token: the structure gets the
  wavelength and a cell of three values, and the angles are not part of the record. An
  atom line split the same way is joined, \<^verbatim>\<open>AtomParser.__call__\<close> being the one
  override that appends the line.
\<close>

theorem continuation_line_dropped:
  "two_lines ''CELL 1.54 10 10 10='' '' 90 90 90'' started =
     Inr ((LineParser, RawLine '' 90 90 90''),
          started\<lparr>CURRENTMOLECULE :=
            Some (ShelxlMolecule_init\<lparr>mol_cell := [10, 10, 10],
                                       mol_waveLength := Some (77 / 50)\<rparr>)\<rparr>)
   \<and> two_lines ''C1 1 0.1 0.2 0.3='' '' 11 0.05'' started =
     Inr ((LineParser,
           AtomToken \<lparr>at_name = ''C1'', at_data = [1, 1 / 10, 1 / 5, 3 / 10, 11, 1 / 20],
                      at_sfac = 1, at_frac = [1 / 10, 1 / 5, 3 / 10], at_occ = (11, 0),
                      at_adp = [1 / 20], at_qPeak = False\<rparr>),
          started\<lparr>CURRENTMOLECULE :=
            Some (ShelxlMolecule_init\<lparr>mol_atoms :=
              [\<lparr>at_name = ''C1'', at_data = [1, 1 / 10, 1 / 5, 3 / 10, 11, 1 / 20],
                at_sfac = 1, at_frac = [1 / 10, 1 / 5, 3 / 10], at_occ = (11, 0),
                at_adp = [1 / 20], at_qPeak = False\<rparr>]\<rparr>)\<rparr>)"
proof -
  have a: "two_lines ''CELL 1.54 10 10 10='' '' 90 90 90'' started =
     Inr ((LineParser, RawLine '' 90 90 90''),
          started\<lparr>CURRENTMOLECULE :=
            Some (ShelxlMolecule_init\<lparr>mol_cell := [10, 10, 10],
                                       mol_waveLength := Some (77 / 50)\<rparr>)\<rparr>)"
    unfolding two_lines_def LineParser_call_cell4 bindR_simps fst_conv
    by (simp add: CellParser_finished_cell4 [OF started_molecule])
  have b: "two_lines ''C1 1 0.1 0.2 0.3='' '' 11 0.05'' started =
     Inr ((LineParser,
           AtomToken \<lparr>at_name = ''C1'', at_data = [1, 1 / 10, 1 / 5, 3 / 10, 11, 1 / 20],
                      at_sfac = 1, at_frac = [1 / 10, 1 / 5, 3 / 10], at_occ = (11, 0),
                      at_adp = [1 / 20], at_qPeak = False\<rparr>),
          started\<lparr>CURRENTMOLECULE :=
            Some (ShelxlMolecule_init\<lparr>mol_atoms :=
              [\<lparr>at_name = ''C1'', at_data = [1, 1 / 10, 1 / 5, 3 / 10, 11, 1 / 20],
                at_sfac = 1, at_frac = [1 / 10, 1 / 5, 3 / 10], at_occ = (11, 0),
                at_adp = [1 / 20], at_qPeak = False\<rparr>]\<rparr>)\<rparr>)"
    unfolding two_lines_def LineParser_call_atom5 bindR_simps fst_conv
    using split_atom
    by (simp add: ShelxlAtom_init_def floats_atom char_upper_C addAtom_def
        started_molecule ShelxlMolecule_init_def Let_def del: floats.simps)
  from a b show ?thesis by (rule conjI)
qed

section \<open>The restraint table\<close>

lemma COMMANDS_DFIX: "COMMANDS ''DFIX'' = Some (Open DfixParser)"
  by code_simp

lemma rstrip_DFIX: "rstrip ''DFIX'' = ''DFIX''"
  by code_simp

lemma split_dfix:
  "split '' 1.5 c1 c2'' = [''1.5'', ''c1'', ''c2'']"
  "split '' 1.6 c2 c1'' = [''1.6'', ''c2'', ''c1'']"
  "split '' 1.5 C1 C2'' = [''1.5'', ''C1'', ''C2'']"
  "split '' 1.6 C2 C1'' = [''1.6'', ''C2'', ''C1'']"
  by code_simp+

lemma float_dfix:
  "float ''1.5'' = Inr (3 / 2)" "float ''1.6'' = Inr (8 / 5)"
  "float ''c1'' = Inl ValueError" "float ''c2'' = Inl ValueError"
  "float ''C1'' = Inl ValueError" "float ''C2'' = Inl ValueError"
  by code_simp+

lemma upper_dfix:
  "upper ''c1'' = ''C1''" "upper ''c2'' = ''C2''"
  "upper ''C1'' = ''C1''" "upper ''C2'' = ''C2''"
  by code_simp+

lemma LineParser_call_DFIX:
  assumes "take 4 line = ''DFIX''" and "last line \<noteq> NL" and "last line \<noteq> CHR ''=''"
    and "split (drop 4 line) = [d, a, b]" and "float d = Inr v" and "float a = Inl ValueError"
    and "CURRENTMOLECULE w = Some m"
  shows "LineParser_call line w =
           Inr ((LineParser, LineToken line),
                w\<lparr>CURRENTMOLECULE := Some (m\<lparr>mol_dfixs := mol_dfixs m @ [(v, None, [(a, b)])]\<rparr>)\<rparr>)"
proof -
  from assms(1) have ne: "line \<noteq> []" by auto
  with assms(2) have r: "rstrip_chars (\<lambda>c. c = NL) line = line"
    by (simp add: rstrip_chars_def dropWhile_eq_Nil_conv rev_is_Nil_conv)
       (cases line rule: rev_cases, simp_all)
  from assms(1) ne have h: "hd (take 4 line) \<noteq> CHR '' ''" by simp
  from assms(3) have e: "\<not> endswith line CHR ''=''" by (simp add: endswith_def)
  show ?thesis
    using ne h e assms(4-7)
    by (simp add: LineParser_call_def r assms(1) rstrip_DFIX COMMANDS_DFIX get_def Let_def
        DfixParser_finished_def addDfixs_def addDfix_def)
qed

text \<open>
  Claim C8, as the code runs. After \<^verbatim>\<open>DFIX 1.5 c1 c2\<close> and \<^verbatim>\<open>DFIX 1.6 c2 c1\<close>
  the row of \<^verbatim>\<open>C1\<close> holds the pair twice, under \<^verbatim>\<open>c2\<close> with the first target and
  under \<^verbatim>\<open>C2\<close> with the second, and so does the row of \<^verbatim>\<open>C2\<close>: the row is looked
  up under the upper-case name and written under the partner's name as the instruction
  spells it, so the second value is kept beside the first. With the names in upper case
  in both instructions each row holds the pair once, with the first target.
\<close>

theorem dfix_rows_keep_both_spellings:
  "dfix_lookup (table_of (state_of (two_lines ''DFIX 1.5 c1 c2'' ''DFIX 1.6 c2 c1'' started)))
     ''C1'' ''c2'' = Some (3 / 2, 1 / 50)
   \<and> dfix_lookup (table_of (state_of (two_lines ''DFIX 1.5 c1 c2'' ''DFIX 1.6 c2 c1'' started)))
     ''C1'' ''C2'' = Some (8 / 5, 1 / 50)
   \<and> dfix_lookup (table_of (state_of (two_lines ''DFIX 1.5 c1 c2'' ''DFIX 1.6 c2 c1'' started)))
     ''C2'' ''C1'' = Some (3 / 2, 1 / 50)
   \<and> dfix_lookup (table_of (state_of (two_lines ''DFIX 1.5 c1 c2'' ''DFIX 1.6 c2 c1'' started)))
     ''C2'' ''c1'' = Some (8 / 5, 1 / 50)
   \<and> dfix_lookup (table_of (state_of (two_lines ''DFIX 1.5 C1 C2'' ''DFIX 1.6 C2 C1'' started)))
     ''C1'' ''C2'' = Some (3 / 2, 1 / 50)
   \<and> dfix_lookup (table_of (state_of (two_lines ''DFIX 1.5 C1 C2'' ''DFIX 1.6 C2 C1'' started)))
     ''C2'' ''C1'' = Some (3 / 2, 1 / 50)"
proof -
  have l1: "LineParser_call ''DFIX 1.5 c1 c2'' started =
      Inr ((LineParser, LineToken ''DFIX 1.5 c1 c2''),
           started\<lparr>CURRENTMOLECULE := Some (ShelxlMolecule_init\<lparr>mol_dfixs :=
             mol_dfixs ShelxlMolecule_init @ [(3 / 2, None, [(''c1'', ''c2'')])]\<rparr>)\<rparr>)"
    using LineParser_call_DFIX [where line = "''DFIX 1.5 c1 c2''" and d = "''1.5''" and a = "''c1''" and b = "''c2''"
        and v = "3 / 2" and w = started and m = ShelxlMolecule_init]
    by (simp add: NL_def split_dfix float_dfix started_molecule)
  have l2: "LineParser_call ''DFIX 1.6 c2 c1'' (w\<lparr>CURRENTMOLECULE := Some m\<rparr>) =
      Inr ((LineParser, LineToken ''DFIX 1.6 c2 c1''),
           w\<lparr>CURRENTMOLECULE := Some m\<rparr>\<lparr>CURRENTMOLECULE := Some (m\<lparr>mol_dfixs :=
             mol_dfixs m @ [(8 / 5, None, [(''c2'', ''c1'')])]\<rparr>)\<rparr>)" for w m
    using LineParser_call_DFIX [where line = "''DFIX 1.6 c2 c1''" and d = "''1.6''" and a = "''c2''" and b = "''c1''"
        and v = "8 / 5" and w = "w\<lparr>CURRENTMOLECULE := Some m\<rparr>" and m = m]
    by (simp add: NL_def split_dfix float_dfix)
  have u1: "LineParser_call ''DFIX 1.5 C1 C2'' started =
      Inr ((LineParser, LineToken ''DFIX 1.5 C1 C2''),
           started\<lparr>CURRENTMOLECULE := Some (ShelxlMolecule_init\<lparr>mol_dfixs :=
             mol_dfixs ShelxlMolecule_init @ [(3 / 2, None, [(''C1'', ''C2'')])]\<rparr>)\<rparr>)"
    using LineParser_call_DFIX [where line = "''DFIX 1.5 C1 C2''" and d = "''1.5''" and a = "''C1''" and b = "''C2''"
        and v = "3 / 2" and w = started and m = ShelxlMolecule_init]
    by (simp add: NL_def split_dfix float_dfix started_molecule)
  have u2: "LineParser_call ''DFIX 1.6 C2 C1'' (w\<lparr>CURRENTMOLECULE := Some m\<rparr>) =
      Inr ((LineParser, LineToken ''DFIX 1.6 C2 C1''),
           w\<lparr>CURRENTMOLECULE := Some m\<rparr>\<lparr>CURRENTMOLECULE := Some (m\<lparr>mol_dfixs :=
             mol_dfixs m @ [(8 / 5, None, [(''C2'', ''C1'')])]\<rparr>)\<rparr>)" for w m
    using LineParser_call_DFIX [where line = "''DFIX 1.6 C2 C1''" and d = "''1.6''" and a = "''C2''" and b = "''C1''"
        and v = "8 / 5" and w = "w\<lparr>CURRENTMOLECULE := Some m\<rparr>" and m = m]
    by (simp add: NL_def split_dfix float_dfix)
  have lower: "table_of (state_of (two_lines ''DFIX 1.5 c1 c2'' ''DFIX 1.6 c2 c1'' started)) =
      [''C2'' \<mapsto> [''C1'' \<mapsto> (3 / 2, 1 / 50), ''c1'' \<mapsto> (8 / 5, 1 / 50)],
       ''C1'' \<mapsto> [''c2'' \<mapsto> (3 / 2, 1 / 50), ''C2'' \<mapsto> (8 / 5, 1 / 50)]]"
    unfolding two_lines_def l1 bindR_simps fst_conv parser_call.simps l2
    by (simp add: state_of_def table_of_def finalize_def finalizeDfix_def dfix_entry_def
        dfix_pair_def upper_dfix ShelxlMolecule_init_def Let_def)
  have upper: "table_of (state_of (two_lines ''DFIX 1.5 C1 C2'' ''DFIX 1.6 C2 C1'' started)) =
      [''C2'' \<mapsto> [''C1'' \<mapsto> (3 / 2, 1 / 50)],
       ''C1'' \<mapsto> [''C2'' \<mapsto> (3 / 2, 1 / 50)]]"
    unfolding two_lines_def u1 bindR_simps fst_conv parser_call.simps u2
    by (simp add: state_of_def table_of_def finalize_def finalizeDfix_def dfix_entry_def
        dfix_pair_def upper_dfix ShelxlMolecule_init_def Let_def)
  show ?thesis
    unfolding lower upper by (simp add: dfix_lookup_def)
qed

section \<open>Lines with an unknown keyword\<close>

















section \<open>What \<^verbatim>\<open>read\<close> returns\<close>

lemma split_cell7:
  "split ''CELL 1.54 10 10 10 90 90 90'' =
     [''CELL'', ''1.54'', ''10'', ''10'', ''10'', ''90'', ''90'', ''90'']"
  by code_simp

lemma floats_cell7:
  "floats [''1.54'', ''10'', ''10'', ''10'', ''90'', ''90'', ''90''] =
     Inr [77 / 50, 10, 10, 10, 90, 90, 90]"
  by code_simp

lemma LineParser_call_cell7:
  "CURRENTMOLECULE w = Some m \<Longrightarrow>
   LineParser_call (''CELL 1.54 10 10 10 90 90 90'' @ [NL]) w =
     Inr ((LineParser, LineToken ''CELL 1.54 10 10 10 90 90 90''),
          w\<lparr>CURRENTMOLECULE :=
              Some (m\<lparr>mol_cell := [10, 10, 10, 90, 90, 90],
                     mol_waveLength := Some (77 / 50)\<rparr>)\<rparr>)"
  by (simp add: LineParser_call_def rstrip_chars_def NL_def rstrip_CELL COMMANDS_CELL get_def
      endswith_def Let_def CellParser_finished_def split_cell7 floats_cell7 setCell_def
      setWavelength_def del: floats.simps)

lemma upper_C1: "upper ''C1'' = ''C1''"
  by code_simp

lemma LineParser_call_atom7:
  "CURRENTMOLECULE w = Some m \<Longrightarrow>
   LineParser_call (''C1 1 0.1 0.2 0.3 11 0.05'' @ [NL]) w =
     Inr ((LineParser, AtomToken atom_C1),
          w\<lparr>CURRENTMOLECULE := Some (m\<lparr>mol_atoms := mol_atoms m @ [atom_C1]\<rparr>)\<rparr>)"
  using split_atom
  by (simp add: LineParser_call_def rstrip_chars_def NL_def rstrip_C1 COMMANDS_C1 get_def
      endswith_def Let_def ShelxlAtom_init_def floats_atom char_upper_C addAtom_def
      atom_C1_def del: floats.simps)

lemma next_line_good:
  "next_line \<lparr>rd_fp = ''CELL 1.54 10 10 10 90 90 90'' @ [NL] @ ''C1 1 0.1 0.2 0.3 11 0.05'' @ [NL],
              rd_inserted = None\<rparr> =
     Some (''CELL 1.54 10 10 10 90 90 90'' @ [NL],
           \<lparr>rd_fp = ''C1 1 0.1 0.2 0.3 11 0.05'' @ [NL], rd_inserted = None\<rparr>)"
  "next_line \<lparr>rd_fp = ''C1 1 0.1 0.2 0.3 11 0.05'' @ [NL], rd_inserted = None\<rparr> =
     Some (''C1 1 0.1 0.2 0.3 11 0.05'' @ [NL], \<lparr>rd_fp = [], rd_inserted = None\<rparr>)"
  "next_line \<lparr>rd_fp = [], rd_inserted = None\<rparr> = None"
  by (simp_all add: next_line_def readline_def NL_def)

lemma read_good:
  "read (Suc (Suc (Suc k))) good_file ''good.ins'' [] loaded =
     Some (Inr (\<lparr>returned = None,
                 sp_lines = [LineToken ''CELL 1.54 10 10 10 90 90 90'', AtomToken atom_C1],
                 printed = finalize good_molecule\<rparr>,
                loaded\<lparr>CURRENTMOLECULE := None\<rparr>))"
proof -
  have hd1: "hd (''CELL 1.54 10 10 10 90 90 90'' @ [NL]) \<noteq> CHR ''+''"
    and hd2: "hd (''C1 1 0.1 0.2 0.3 11 0.05'' @ [NL]) \<noteq> CHR ''+''" by simp_all
  have loop: "read_loop (Suc (Suc (Suc k))) good_file
      \<lparr>rd_fp = ''CELL 1.54 10 10 10 90 90 90'' @ [NL] @ ''C1 1 0.1 0.2 0.3 11 0.05'' @ [NL],
        rd_inserted = None\<rparr> LineParser [] started =
      Some (Inr ([LineToken ''CELL 1.54 10 10 10 90 90 90'', AtomToken atom_C1],
                 started\<lparr>CURRENTMOLECULE := Some good_molecule\<rparr>))"
    using hd1 hd2
    by (simp add: next_line_good LineParser_call_cell7 [OF started_molecule] LineParser_call_atom7
        good_molecule_def ShelxlMolecule_init_def del: append.simps)
  have content: "good_file ''good.ins'' =
      Some (''CELL 1.54 10 10 10 90 90 90'' @ [NL] @ ''C1 1 0.1 0.2 0.3 11 0.05'' @ [NL])"
    by (simp add: good_file_def)
  show ?thesis
    unfolding read_def Let_def content option.case loop [unfolded started_def]
    by simp
qed

text \<open>
  Claim C1, as the code runs. When \<^verbatim>\<open>read\<close> comes to its end without an exception, the
  structure the lines built has been passed to \<^verbatim>\<open>finalize\<close> (whose table is printed),
  the tokens are in \<^verbatim>\<open>self.lines\<close>, the class attribute \<^verbatim>\<open>CURRENTMOLECULE\<close> is
  \<^verbatim>\<open>None\<close> again, and the call returns \<^verbatim>\<open>None\<close>: the body has no \<^verbatim>\<open>return\<close>
  statement, and the structure, held in a local variable, is handed to nobody.
\<close>

theorem read_returns_nothing:
  assumes "read fuel fs fileName ls w = Some (Inr (out, w'))"
  shows "returned out = None \<and> CURRENTMOLECULE w' = None
    \<and> (\<exists>content ls' w1 molecule.
          fs fileName = Some content
          \<and> read_loop fuel fs \<lparr>rd_fp = content, rd_inserted = None\<rparr> LineParser ls
                (w\<lparr>CURRENTMOLECULE := Some ShelxlMolecule_init\<rparr>) = Some (Inr (ls', w1))
          \<and> CURRENTMOLECULE w1 = Some molecule
          \<and> printed out = finalize molecule \<and> sp_lines out = ls'
          \<and> w' = w1\<lparr>CURRENTMOLECULE := None\<rparr>)"
  using assms
  by (auto simp add: read_def Let_def split: option.splits sum.splits prod.splits)

theorem read_returns_nothing_witness:
  "read 3 good_file ''good.ins'' [] loaded =
     Some (Inr (\<lparr>returned = None,
                 sp_lines = [LineToken ''CELL 1.54 10 10 10 90 90 90'', AtomToken atom_C1],
                 printed = [''C1'' \<mapsto> Map.empty]\<rparr>,
                loaded\<lparr>CURRENTMOLECULE := None\<rparr>))"
proof -
  have r: "read 3 good_file ''good.ins'' [] loaded =
     Some (Inr (\<lparr>returned = None,
                 sp_lines = [LineToken ''CELL 1.54 10 10 10 90 90 90'', AtomToken atom_C1],
                 printed = finalize good_molecule\<rparr>,
                loaded\<lparr>CURRENTMOLECULE := None\<rparr>))"
    using read_good [of 0] by (simp add: eval_nat_numeral)
  have f: "finalize good_molecule = [''C1'' \<mapsto> Map.empty]"
    by (simp add: finalize_def finalizeDfix_def good_molecule_def ShelxlMolecule_init_def
        atom_C1_def upper_C1)
  from read_returns_nothing [OF r] r f show ?thesis
    by simp
qed

end
